theory Spec2Isabelle
  imports Main "HOL-Library.Sublist" "HOL-Library.List_Lexorder"
begin

section \<open>Python strings\<close>

text \<open>
  A Python \<^verbatim>\<open>str\<close> is a sequence of Unicode code points, and \<^verbatim>\<open>len\<close> counts code
  points. The model therefore takes a string to be a list of code points (natural
  numbers), not a list of 8-bit characters. \<open>lit\<close> turns an ASCII literal of the
  source into such a list.
\<close>

type_synonym pystr = "nat list"

definition lit :: "string \<Rightarrow> pystr" where
  "lit s = map of_char s"

text \<open>\<^verbatim>\<open>str(n)\<close> for a non-negative integer: its decimal digits.\<close>

fun str_nat :: "nat \<Rightarrow> pystr" where
  "str_nat n = (if n < 10 then [48 + n] else str_nat (n div 10) @ [48 + n mod 10])"

declare str_nat.simps [simp del]

text \<open>
  The code points that \<^verbatim>\<open>str.strip()\<close> removes (those for which \<^verbatim>\<open>str.isspace()\<close> holds):
  U+0009..U+000D, U+001C..U+0020, U+0085, U+00A0, U+1680, U+2000..U+200A, U+2028,
  U+2029, U+202F, U+205F, U+3000.
\<close>

definition is_space :: "nat \<Rightarrow> bool" where
  "is_space c = ((9 \<le> c \<and> c \<le> 13) \<or> (28 \<le> c \<and> c \<le> 32) \<or> c = 133 \<or> c = 160
     \<or> c = 5760 \<or> (8192 \<le> c \<and> c \<le> 8202) \<or> c = 8232 \<or> c = 8233 \<or> c = 8239
     \<or> c = 8287 \<or> c = 12288)"

definition strip :: "pystr \<Rightarrow> pystr" where
  "strip s = rev (dropWhile is_space (rev (dropWhile is_space s)))"

section \<open>Field validators (skill\_utils.py)\<close>

text \<open>The character class \<^verbatim>\<open>[a-z0-9-]\<close>.\<close>

definition name_char :: "nat \<Rightarrow> bool" where
  "name_char c = ((97 \<le> c \<and> c \<le> 122) \<or> (48 \<le> c \<and> c \<le> 57) \<or> c = 45)"

text \<open>
  \<^verbatim>\<open>re.match(r"^[a-z0-9-]+$", name)\<close>. The class is matched greedily from the start and
  must take at least one character; \<^verbatim>\<open>$\<close> then holds at the end of the string or just
  before a newline that ends the string (Python's meaning of \<^verbatim>\<open>$\<close> without MULTILINE).
\<close>

definition re_match_name :: "pystr \<Rightarrow> bool" where
  "re_match_name s =
     (let rest = dropWhile name_char s
      in takeWhile name_char s \<noteq> [] \<and> (rest = [] \<or> rest = [10]))"

definition validate_skill_name :: "pystr \<Rightarrow> bool \<times> pystr" where
  "validate_skill_name name =
     (if name = [] then (False, lit ''Skill name is required'')
      else if length name > 64 then
        (False, lit ''Skill name too long ('' @ str_nat (length name) @ lit '' chars, max 64)'')
      else if \<not> re_match_name name then
        (False, lit ''Skill name must be lowercase with hyphens only (a-z, 0-9, -)'')
      else if sublist (lit ''anthropic'') name \<or> sublist (lit ''claude'') name then
        (False, lit ''Skill name cannot contain \"anthropic\" or \"claude\"'')
      else if 60 \<in> set name \<or> 62 \<in> set name then
        (False, lit ''Skill name cannot contain XML tags'')
      else (True, []))"

text \<open>
  \<^verbatim>\<open>re.search(r"<[^>]+>", description)\<close>. At a given start the pattern needs \<^verbatim>\<open><\<close>, then
  at least one character other than \<^verbatim>\<open>>\<close>, then \<^verbatim>\<open>>\<close>; a negated class also takes
  newlines. \<open>re_search_xml_tag\<close> tries every start from left to right.
\<close>

definition match_xml_tag_at :: "pystr \<Rightarrow> bool" where
  "match_xml_tag_at s =
     (case s of [] \<Rightarrow> False
      | c # cs \<Rightarrow> c = 60 \<and> takeWhile (\<lambda>x. x \<noteq> 62) cs \<noteq> [] \<and> dropWhile (\<lambda>x. x \<noteq> 62) cs \<noteq> [])"

fun re_search_xml_tag :: "pystr \<Rightarrow> bool" where
  "re_search_xml_tag [] = False"
| "re_search_xml_tag (c # cs) = (match_xml_tag_at (c # cs) \<or> re_search_xml_tag cs)"

definition validate_skill_description :: "pystr \<Rightarrow> bool \<times> pystr" where
  "validate_skill_description description =
     (if description = [] then (False, lit ''Description is required'')
      else if strip description = [] then (False, lit ''Description cannot be only whitespace'')
      else if length description > 1024 then
        (False, lit ''Description too long ('' @ str_nat (length description)
                  @ lit '' chars, max 1024)'')
      else if re_search_xml_tag description then
        (False, lit ''Description cannot contain XML tags'')
      else (True, []))"

section \<open>Exceptions and YAML values\<close>

text \<open>
  The exceptions the modelled functions can end with. The first three are the classes of
  skill\_utils.py (\<open>SkillValidationError\<close> and \<open>SkillPackagingError\<close> are subclasses of
  \<open>SkillError\<close>, so \<^verbatim>\<open>except SkillError\<close> catches all three); the others are Python's
  own. A function that can raise returns \<open>exn + 'a\<close>, with \<open>Inl\<close> for the exception.
\<close>

datatype exn =
    SkillError pystr
  | SkillValidationError pystr
  | SkillPackagingError pystr
  | TypeError
  | AttributeError
  | ValueError pystr
  | OSError

text \<open>\<^verbatim>\<open>isinstance(e, SkillError)\<close> and \<^verbatim>\<open>str(e)\<close> for the three skill exceptions.\<close>

fun is_SkillError :: "exn \<Rightarrow> bool" where
  "is_SkillError (SkillError m) = True"
| "is_SkillError (SkillValidationError m) = True"
| "is_SkillError (SkillPackagingError m) = True"
| "is_SkillError e = False"

fun exn_str :: "exn \<Rightarrow> pystr" where
  "exn_str (SkillError m) = m"
| "exn_str (SkillValidationError m) = m"
| "exn_str (SkillPackagingError m) = m"
| "exn_str (ValueError m) = m"
| "exn_str e = []"

text \<open>
  What \<^verbatim>\<open>yaml.safe_load\<close> returns: null, booleans, integers, floats, strings, dates and
  timestamps, sequences and mappings. A float is kept as its truth value and the text
  \<^verbatim>\<open>str()\<close> gives for it, a date as that text; nothing else of them is used. A mapping
  is an association list in the order of the document; a lookup takes the first binding
  of a key. (The tagged types \<^verbatim>\<open>!!binary\<close>, \<^verbatim>\<open>!!set\<close>, \<^verbatim>\<open>!!omap\<close> and \<^verbatim>\<open>!!pairs\<close> are not
  modelled.)
\<close>

datatype yaml =
    YNull
  | YBool bool
  | YInt int
  | YFloat bool pystr
  | YStr pystr
  | YDate pystr
  | YList "yaml list"
  | YDict "(yaml \<times> yaml) list"

type_synonym frontmatter = "(yaml \<times> yaml) list"

section \<open>Header parser (skill\_utils.py, parse\_skill\_file)\<close>

text \<open>
  \<open>find_first sep s\<close> splits \<open>s\<close> at the leftmost occurrence of \<open>sep\<close>, into what
  stands before it and what stands after it.
\<close>

fun find_first :: "pystr \<Rightarrow> pystr \<Rightarrow> (pystr \<times> pystr) option" where
  "find_first sep [] = (if sep = [] then Some ([], []) else None)"
| "find_first sep (c # cs) =
     (if prefix sep (c # cs) then Some ([], drop (length sep) (c # cs))
      else (case find_first sep cs of
              None \<Rightarrow> None
            | Some (before, after) \<Rightarrow> Some (c # before, after)))"

text \<open>
  \<^verbatim>\<open>re.match(r"^---\n(.*?)\n---\n(.*)$", content, re.DOTALL)\<close> and its two groups. With
  DOTALL the last group takes whatever is left, so the lazy first group ends at the
  leftmost \<^verbatim>\<open>\n---\n\<close> that starts at or after the end of the opening line.
\<close>

definition re_match_frontmatter :: "pystr \<Rightarrow> (pystr \<times> pystr) option" where
  "re_match_frontmatter content =
     (if prefix (lit ''---'' @ [10]) content
      then find_first ([10] @ lit ''---'' @ [10]) (drop 4 content)
      else None)"

definition invalid_format_message :: pystr where
  "invalid_format_message =
     lit ''Invalid frontmatter format. Must be:'' @ [10]
     @ lit ''---'' @ [10]
     @ lit ''name: skill-name'' @ [10]
     @ lit ''description: ...'' @ [10]
     @ lit ''---'' @ [10]
     @ lit ''Body content...''"

text \<open>
  \<open>yaml_safe_load\<close> stands for PyYAML's \<^verbatim>\<open>yaml.safe_load\<close>, which is not part of the
  repository. It returns the loaded value, or raises a \<^verbatim>\<open>yaml.YAMLError\<close> (kept with its
  text), or raises another exception (a \<^verbatim>\<open>ValueError\<close> for the date \<^verbatim>\<open>2024-02-30\<close>, for
  instance). The source catches \<^verbatim>\<open>yaml.YAMLError\<close> only, so any other exception of the
  loader leaves \<^verbatim>\<open>parse_skill_file\<close> as it is.
\<close>

datatype load_result = Loaded yaml | YAMLError pystr | LoaderRaises exn

definition parse_skill_file ::
  "(pystr \<Rightarrow> load_result) \<Rightarrow> pystr \<Rightarrow> exn + (frontmatter \<times> pystr)" where
  "parse_skill_file yaml_safe_load content =
     (if strip content = [] then Inl (SkillValidationError (lit ''SKILL.md file is empty''))
      else if \<not> prefix (lit ''---'') content then
        Inl (SkillValidationError (lit ''SKILL.md must start with YAML frontmatter (---)''))
      else
        (case re_match_frontmatter content of
           None \<Rightarrow> Inl (SkillValidationError invalid_format_message)
         | Some (frontmatter_str, body) \<Rightarrow>
             (case yaml_safe_load frontmatter_str of
                YAMLError e \<Rightarrow>
                  Inl (SkillValidationError (lit ''Invalid YAML in frontmatter: '' @ e))
              | LoaderRaises x \<Rightarrow> Inl x
              | Loaded (YDict frontmatter) \<Rightarrow> Inr (frontmatter, strip body)
              | Loaded _ \<Rightarrow>
                  Inl (SkillValidationError (lit ''Frontmatter must be a YAML dictionary/object'')))))"

section \<open>Paths and the environment\<close>

text \<open>
  A \<^verbatim>\<open>pathlib.Path\<close> is modelled by its \<^verbatim>\<open>parts\<close>: the list of its components, with
  the root \<^verbatim>\<open>/\<close> as first component of an absolute path. \<open>path_str\<close> is \<^verbatim>\<open>str(path)\<close>,
  \<open>path_name\<close> is \<^verbatim>\<open>path.name\<close>, \<open>path_parent\<close> is \<^verbatim>\<open>path.parent\<close>, and
  \<^verbatim>\<open>path / "x"\<close> for a single component is \<open>path @ [x]\<close>.
\<close>

type_synonym path = "pystr list"

text \<open>\<^verbatim>\<open>sep.join(xs)\<close>.\<close>

fun join :: "pystr \<Rightarrow> pystr list \<Rightarrow> pystr" where
  "join sep [] = []"
| "join sep [x] = x"
| "join sep (x # y # ys) = x @ sep @ join sep (y # ys)"

definition is_root :: "pystr \<Rightarrow> bool" where
  "is_root c = (c = lit ''/'' \<or> c = lit ''//'')"

definition path_str :: "path \<Rightarrow> pystr" where
  "path_str p =
     (case p of [] \<Rightarrow> lit ''.''
      | r # rest \<Rightarrow> if is_root r then r @ join (lit ''/'') rest else join (lit ''/'') p)"

definition path_name :: "path \<Rightarrow> pystr" where
  "path_name p = (case p of [] \<Rightarrow> [] | r # rest \<Rightarrow> if rest = [] \<and> is_root r then [] else last p)"

definition path_parent :: "path \<Rightarrow> path" where
  "path_parent p = (case p of [] \<Rightarrow> [] | r # rest \<Rightarrow> if rest = [] \<and> is_root r then p else butlast p)"

text \<open>\<^verbatim>\<open>format_path(path)\<close> without \<^verbatim>\<open>relative_to\<close>, the only way the core calls it.\<close>

definition format_path :: "path \<Rightarrow> pystr" where
  "format_path p = path_str p"

text \<open>What \<^verbatim>\<open>Path.read_text(encoding="utf-8")\<close> ends with.\<close>

datatype read_result = ReadText pystr | UnicodeDecodeError | ReadException pystr

text \<open>
  The writes of the packager: creating the archive, adding a text entry or a file to
  it, \<^verbatim>\<open>mkdir(parents=True, exist_ok=True)\<close>, \<^verbatim>\<open>write_text\<close> and \<^verbatim>\<open>shutil.copy2\<close>.
\<close>

datatype io_op =
    ZipCreate path
  | ZipWriteStr path pystr pystr
  | ZipWrite path path path
  | Mkdir path
  | WriteText path pystr
  | Copy2 path path

text \<open>
  Everything the core asks of the operating system, of the Python runtime and of its
  libraries is a field of the environment: the file system queries of \<^verbatim>\<open>pathlib\<close>,
  \<^verbatim>\<open>sys.platform\<close>, PyYAML's loader, \<^verbatim>\<open>str.lower\<close> (its table is Unicode's),
  \<^verbatim>\<open>str()\<close> of a sequence or mapping, the clock, \<^verbatim>\<open>json.dumps\<close> with \<^verbatim>\<open>indent=2\<close>
  (\<open>Inl\<close> the text of its exception), the text of the \<^verbatim>\<open>ValueError\<close> of
  \<^verbatim>\<open>Path.relative_to\<close>, and for every write whether it fails (\<open>Some\<close> the text of its
  exception).

  \<^verbatim>\<open>Path.exists()\<close>, \<^verbatim>\<open>is_file()\<close>, \<^verbatim>\<open>is_dir()\<close>, \<^verbatim>\<open>stat()\<close> and \<^verbatim>\<open>iterdir()\<close> can
  raise \<^verbatim>\<open>OSError\<close> (a path component that is too long, a directory that may not be
  searched): the field is \<open>None\<close> there. \<^verbatim>\<open>glob\<close>, \<^verbatim>\<open>rglob\<close> and \<^verbatim>\<open>resolve\<close> are taken
  to return.
\<close>

record os_env =
  os_exists :: "path \<Rightarrow> bool option"
  os_is_file :: "path \<Rightarrow> bool option"
  os_is_dir :: "path \<Rightarrow> bool option"
  os_st_size :: "path \<Rightarrow> nat option"
  os_st_mode :: "path \<Rightarrow> nat option"
  os_read_text :: "path \<Rightarrow> read_result"
  os_glob :: "path \<Rightarrow> pystr \<Rightarrow> path list"
  os_rglob :: "path \<Rightarrow> pystr \<Rightarrow> path list"
  os_iterdir :: "path \<Rightarrow> path list option"
  os_resolve :: "path \<Rightarrow> path"
  sys_platform :: pystr
  yaml_load :: "pystr \<Rightarrow> load_result"
  str_lower :: "pystr \<Rightarrow> pystr"
  container_str :: "yaml \<Rightarrow> pystr"
  utcnow_isoformat :: pystr
  json_dumps :: "(pystr \<times> yaml) list \<Rightarrow> pystr + pystr"
  relative_to_message :: "path \<Rightarrow> path \<Rightarrow> pystr"
  io_error :: "io_op \<Rightarrow> pystr option"

section \<open>File helpers and the result accumulator (skill\_utils.py)\<close>

text \<open>
  A function that can raise returns \<open>exn + 'a\<close>; \<open>bind_exn\<close> runs the next statement on
  the value, or passes the exception on. \<open>os_query\<close> is the outcome of one file system
  query: its answer, or \<^verbatim>\<open>OSError\<close>.
\<close>

definition bind_exn :: "exn + 'a \<Rightarrow> ('a \<Rightarrow> exn + 'b) \<Rightarrow> exn + 'b" where
  "bind_exn m f = (case m of Inl e \<Rightarrow> Inl e | Inr x \<Rightarrow> f x)"

definition os_query :: "'a option \<Rightarrow> exn + 'a" where
  "os_query q = (case q of None \<Rightarrow> Inl OSError | Some answer \<Rightarrow> Inr answer)"

text \<open>
  \<^verbatim>\<open>find_skill_file(path)\<close>. The queries are made in the order of the source, and
  \<^verbatim>\<open>and\<close> does not make its second query when the first answers false.
\<close>

definition find_skill_file :: "os_env \<Rightarrow> path \<Rightarrow> exn + path option" where
  "find_skill_file env path =
     bind_exn (os_query (os_exists env path)) (\<lambda>path_exists.
     if \<not> path_exists then Inr None
     else
       bind_exn (os_query (os_is_file env path)) (\<lambda>path_is_file.
       if path_is_file \<and> path_name path = lit ''SKILL.md'' then Inr (Some path)
       else
         bind_exn (os_query (os_is_dir env path)) (\<lambda>path_is_dir.
         if path_is_dir then
           bind_exn (os_query (os_exists env (path @ [lit ''SKILL.md'']))) (\<lambda>file_exists.
           Inr (if file_exists then Some (path @ [lit ''SKILL.md'']) else None))
         else Inr None)))"

text \<open>The default of \<^verbatim>\<open>max_size\<close>: \<^verbatim>\<open>10 * 1024 * 1024\<close>.\<close>

definition default_max_size :: nat where
  "default_max_size = 10 * 1024 * 1024"

text \<open>
  \<^verbatim>\<open>read_file_safe(file_path, max_size)\<close>. The three queries stand outside the \<^verbatim>\<open>try\<close>
  block, so their \<^verbatim>\<open>OSError\<close> is not turned into a \<^verbatim>\<open>SkillError\<close>.
\<close>

definition read_file_safe :: "os_env \<Rightarrow> path \<Rightarrow> nat \<Rightarrow> exn + pystr" where
  "read_file_safe env file_path max_size =
     bind_exn (os_query (os_exists env file_path)) (\<lambda>file_exists.
     if \<not> file_exists then
       Inl (SkillError (lit ''File not found: '' @ path_str file_path))
     else
       bind_exn (os_query (os_is_file env file_path)) (\<lambda>file_is_file.
       if \<not> file_is_file then
         Inl (SkillError (lit ''Not a file: '' @ path_str file_path))
       else
         bind_exn (os_query (os_st_size env file_path)) (\<lambda>size.
         if size > max_size then
           Inl (SkillError (lit ''File too large: '' @ str_nat size
                  @ lit '' bytes (max '' @ str_nat max_size @ lit '' bytes)''))
         else
           (case os_read_text env file_path of
              ReadText content \<Rightarrow> Inr content
            | UnicodeDecodeError \<Rightarrow>
                Inl (SkillError (lit ''File is not valid UTF-8: '' @ path_str file_path))
            | ReadException e \<Rightarrow>
                Inl (SkillError (lit ''Error reading file '' @ path_str file_path
                       @ lit '': '' @ e))))))"

record validation_result =
  errors :: "pystr list"
  warnings :: "pystr list"

definition ValidationResult :: validation_result where
  "ValidationResult = \<lparr>errors = [], warnings = []\<rparr>"

definition add_error :: "validation_result \<Rightarrow> pystr \<Rightarrow> validation_result" where
  "add_error r message = r\<lparr>errors := errors r @ [message]\<rparr>"

definition add_warning :: "validation_result \<Rightarrow> pystr \<Rightarrow> validation_result" where
  "add_warning r message = r\<lparr>warnings := warnings r @ [message]\<rparr>"

definition is_valid :: "validation_result \<Rightarrow> bool" where
  "is_valid r = (length (errors r) = 0)"

definition has_warnings :: "validation_result \<Rightarrow> bool" where
  "has_warnings r = (length (warnings r) > 0)"

section \<open>Python values at run time\<close>

text \<open>
  The validators are annotated \<^verbatim>\<open>str\<close>, but the engine passes them whatever the YAML
  loader produced. \<open>py_truthy\<close> is \<^verbatim>\<open>bool(v)\<close>, \<open>py_len\<close> is \<^verbatim>\<open>len(v)\<close> (\<open>None\<close> where
  it raises \<^verbatim>\<open>TypeError\<close>), \<open>py_hashable\<close> tells whether \<^verbatim>\<open>hash(v)\<close> succeeds, and
  \<open>py_str\<close> is \<^verbatim>\<open>str(v)\<close>.
\<close>

fun py_truthy :: "yaml \<Rightarrow> bool" where
  "py_truthy YNull = False"
| "py_truthy (YBool b) = b"
| "py_truthy (YInt i) = (i \<noteq> 0)"
| "py_truthy (YFloat nonzero txt) = nonzero"
| "py_truthy (YStr s) = (s \<noteq> [])"
| "py_truthy (YDate txt) = True"
| "py_truthy (YList xs) = (xs \<noteq> [])"
| "py_truthy (YDict kvs) = (kvs \<noteq> [])"

fun py_len :: "yaml \<Rightarrow> nat option" where
  "py_len (YStr s) = Some (length s)"
| "py_len (YList xs) = Some (length xs)"
| "py_len (YDict kvs) = Some (length kvs)"
| "py_len v = None"

fun py_hashable :: "yaml \<Rightarrow> bool" where
  "py_hashable (YList xs) = False"
| "py_hashable (YDict kvs) = False"
| "py_hashable v = True"

definition str_int :: "int \<Rightarrow> pystr" where
  "str_int i = (if i < 0 then lit ''-'' @ str_nat (nat (- i)) else str_nat (nat i))"

definition py_str :: "os_env \<Rightarrow> yaml \<Rightarrow> pystr" where
  "py_str env v =
     (case v of
        YNull \<Rightarrow> lit ''None''
      | YBool b \<Rightarrow> (if b then lit ''True'' else lit ''False'')
      | YInt i \<Rightarrow> str_int i
      | YFloat nonzero txt \<Rightarrow> txt
      | YStr s \<Rightarrow> s
      | YDate txt \<Rightarrow> txt
      | YList xs \<Rightarrow> container_str env v
      | YDict kvs \<Rightarrow> container_str env v)"

text \<open>
  \<^verbatim>\<open>validate_skill_name(v)\<close> for any loaded value. A value that is no string passes
  \<^verbatim>\<open>not name\<close> by its truth value; then \<^verbatim>\<open>len(name)\<close> raises \<^verbatim>\<open>TypeError\<close> for a value
  without length, and for a sequence or mapping of at most 64 entries \<^verbatim>\<open>re.match\<close>
  raises \<^verbatim>\<open>TypeError\<close>.
\<close>

definition validate_skill_name_value :: "yaml \<Rightarrow> exn + (bool \<times> pystr)" where
  "validate_skill_name_value v =
     (case v of
        YStr name \<Rightarrow> Inr (validate_skill_name name)
      | _ \<Rightarrow>
        if \<not> py_truthy v then Inr (False, lit ''Skill name is required'')
        else (case py_len v of
                None \<Rightarrow> Inl TypeError
              | Some n \<Rightarrow>
                  if n > 64 then
                    Inr (False, lit ''Skill name too long ('' @ str_nat n @ lit '' chars, max 64)'')
                  else Inl TypeError))"

text \<open>
  \<^verbatim>\<open>validate_skill_description(v)\<close> for any loaded value: a true value that is no string
  has no \<^verbatim>\<open>strip\<close> method, which raises \<^verbatim>\<open>AttributeError\<close>.
\<close>

definition validate_skill_description_value :: "yaml \<Rightarrow> exn + (bool \<times> pystr)" where
  "validate_skill_description_value v =
     (case v of
        YStr description \<Rightarrow> Inr (validate_skill_description description)
      | _ \<Rightarrow>
        if \<not> py_truthy v then Inr (False, lit ''Description is required'')
        else Inl AttributeError)"

section \<open>Validation engine (validate\_skill.py)\<close>

text \<open>
  \<open>validate_skill\<close> is one long function in the source; the model has one definition for
  each of its commented blocks, each taking the result accumulated so far and returning
  the updated one (or the exception that ends the run), and \<open>validate_skill\<close> chains
  them in the order of the source.
\<close>

text \<open>Block "Validate required fields", first half.\<close>

definition check_name :: "frontmatter \<Rightarrow> validation_result \<Rightarrow> exn + validation_result" where
  "check_name frontmatter result =
     (case map_of frontmatter (YStr (lit ''name'')) of
        None \<Rightarrow> Inr (add_error result (lit ''Required field \"name\" missing from frontmatter''))
      | Some v \<Rightarrow>
          (case validate_skill_name_value v of
             Inl e \<Rightarrow> Inl e
           | Inr (valid, error_msg) \<Rightarrow>
               Inr (if \<not> valid then add_error result (lit ''Invalid skill name: '' @ error_msg)
                    else result)))"

text \<open>Block "Validate required fields", second half.\<close>

definition check_description :: "frontmatter \<Rightarrow> validation_result \<Rightarrow> exn + validation_result" where
  "check_description frontmatter result =
     (case map_of frontmatter (YStr (lit ''description'')) of
        None \<Rightarrow>
          Inr (add_error result (lit ''Required field \"description\" missing from frontmatter''))
      | Some v \<Rightarrow>
          (case validate_skill_description_value v of
             Inl e \<Rightarrow> Inl e
           | Inr (valid, error_msg) \<Rightarrow>
               Inr (if \<not> valid then add_error result (lit ''Invalid description: '' @ error_msg)
                    else result)))"

text \<open>
  Block "Check for unexpected frontmatter fields". \<open>unexpected_fields\<close> is
  \<^verbatim>\<open>set(frontmatter.keys()) - expected_fields\<close>. \<^verbatim>\<open>', '.join(sorted(unexpected))\<close> raises
  \<^verbatim>\<open>TypeError\<close> as soon as one of the keys is no string (in \<^verbatim>\<open>sorted\<close> or in \<^verbatim>\<open>join\<close>).
\<close>

definition expected_fields :: "yaml list" where
  "expected_fields =
     [YStr (lit ''name''), YStr (lit ''description''), YStr (lit ''tools''), YStr (lit ''model'')]"

definition unexpected_fields :: "frontmatter \<Rightarrow> yaml list" where
  "unexpected_fields frontmatter =
     remdups (filter (\<lambda>k. k \<notin> set expected_fields) (map fst frontmatter))"

fun str_keys :: "yaml list \<Rightarrow> pystr list option" where
  "str_keys [] = Some []"
| "str_keys (YStr s # ks) = (case str_keys ks of None \<Rightarrow> None | Some ss \<Rightarrow> Some (s # ss))"
| "str_keys (k # ks) = None"

definition check_unexpected ::
  "bool \<Rightarrow> frontmatter \<Rightarrow> validation_result \<Rightarrow> exn + validation_result" where
  "check_unexpected strict frontmatter result =
     (let unexpected = unexpected_fields frontmatter in
      if unexpected \<noteq> [] then
        (case str_keys unexpected of
           None \<Rightarrow> Inl TypeError
         | Some names \<Rightarrow>
             (let msg = lit ''Unexpected frontmatter fields: '' @ join (lit '', '') (sort names)
              in Inr (if strict then add_error result msg else add_warning result msg)))
      else Inr result)"

text \<open>Block "Validate body content".\<close>

definition check_body :: "bool \<Rightarrow> pystr \<Rightarrow> validation_result \<Rightarrow> validation_result" where
  "check_body strict body result =
     (if body = [] then
        (let msg = lit ''SKILL.md body is empty (no content after frontmatter)''
         in if strict then add_error result msg else add_warning result msg)
      else if length body < 100 then
        add_warning result
          (lit ''SKILL.md body is very short ('' @ str_nat (length body) @ lit '' chars). ''
             @ lit ''Consider adding more detailed instructions.'')
      else result)"

text \<open>Block "Check for common sections".\<close>

definition recommended_sections :: "(pystr \<times> pystr) list" where
  "recommended_sections =
     [(lit ''when to use'', lit ''when to use this skill''),
      (lit ''instruction'', lit ''step-by-step instructions''),
      (lit ''example'', lit ''concrete examples'')]"

definition check_sections :: "os_env \<Rightarrow> pystr \<Rightarrow> validation_result \<Rightarrow> validation_result" where
  "check_sections env body result =
     (let body_lower = str_lower env body in
      fold (\<lambda>(keyword, description) r.
              if \<not> sublist keyword body_lower then
                add_warning r (lit ''Missing recommended section: '' @ description)
              else r)
           recommended_sections result)"

text \<open>Block "Validate tool references if present". \<open>split_on\<close> is \<^verbatim>\<open>str.split(sep)\<close>.\<close>

fun split_on :: "nat \<Rightarrow> pystr \<Rightarrow> pystr list" where
  "split_on sep [] = [[]]"
| "split_on sep (c # cs) =
     (if c = sep then [] # split_on sep cs
      else (case split_on sep cs of [] \<Rightarrow> [[c]] | x # xs \<Rightarrow> (c # x) # xs))"

definition valid_tools :: "pystr list" where
  "valid_tools =
     [lit ''Bash'', lit ''Read'', lit ''Write'', lit ''Edit'', lit ''Glob'', lit ''Grep'',
      lit ''WebFetch'', lit ''WebSearch'']"

definition check_tools :: "frontmatter \<Rightarrow> validation_result \<Rightarrow> validation_result" where
  "check_tools frontmatter result =
     (case map_of frontmatter (YStr (lit ''tools'')) of
        Some (YStr tools) \<Rightarrow>
          (let tools_list = map strip (split_on 44 tools);
               invalid_tools = filter (\<lambda>t. t \<noteq> [] \<and> t \<notin> set valid_tools) tools_list
           in if invalid_tools \<noteq> [] then
                add_warning result
                  (lit ''Unknown tools specified: '' @ join (lit '', '') invalid_tools)
              else result)
      | _ \<Rightarrow> result)"

text \<open>
  Block "Validate model if present". \<^verbatim>\<open>model not in valid_models\<close> hashes the value, which
  raises \<^verbatim>\<open>TypeError\<close> for a sequence or a mapping.
\<close>

definition valid_models :: "pystr list" where
  "valid_models = [lit ''sonnet'', lit ''opus'', lit ''haiku'', lit ''inherit'']"

definition check_model ::
  "os_env \<Rightarrow> frontmatter \<Rightarrow> validation_result \<Rightarrow> exn + validation_result" where
  "check_model env frontmatter result =
     (case map_of frontmatter (YStr (lit ''model'')) of
        None \<Rightarrow> Inr result
      | Some model \<Rightarrow>
          if \<not> py_hashable model then Inl TypeError
          else if model \<notin> set (map YStr valid_models) then
            Inr (add_warning result
                   (lit ''Unknown model '' @ [39] @ py_str env model @ [39]
                      @ lit ''. Valid options: '' @ join (lit '', '') (sort valid_models)))
          else Inr result)"

text \<open>
  Block "Check directory structure". \<^verbatim>\<open>0o111\<close> is 73; \<^verbatim>\<open>script.stat()\<close> raises
  \<^verbatim>\<open>OSError\<close> where the environment has no mode for the path (a broken link, for
  instance, which \<^verbatim>\<open>glob\<close> lists).
\<close>

fun check_executable ::
  "os_env \<Rightarrow> path list \<Rightarrow> validation_result \<Rightarrow> exn + validation_result" where
  "check_executable env [] result = Inr result"
| "check_executable env (script # rest) result =
     (case os_st_mode env script of
        None \<Rightarrow> Inl OSError
      | Some mode \<Rightarrow>
          check_executable env rest
            (if and mode 73 = 0 then
               add_warning result
                 (lit ''Script '' @ path_name script @ lit '' is not executable. ''
                    @ lit ''Consider: chmod +x '' @ path_str script)
             else result))"

definition check_scripts_dir ::
  "os_env \<Rightarrow> path \<Rightarrow> validation_result \<Rightarrow> exn + validation_result" where
  "check_scripts_dir env scripts_dir result =
     bind_exn (os_query (os_exists env scripts_dir)) (\<lambda>scripts_exists.
     if scripts_exists then
       (let python_files = os_glob env scripts_dir (lit ''*.py'') in
        if python_files \<noteq> [] then
          bind_exn (os_query (os_exists env (scripts_dir @ [lit ''__init__.py'']))) (\<lambda>init_exists.
          (let result1 =
                 (if \<not> init_exists then
                    add_warning result
                      (lit ''scripts/ directory contains Python files but no ''
                         @ lit ''__init__.py'')
                  else result)
           in if sys_platform env \<noteq> lit ''win32''
              then check_executable env python_files result1
              else Inr result1))
        else Inr result)
     else Inr result)"

definition check_references_dir ::
  "os_env \<Rightarrow> path \<Rightarrow> validation_result \<Rightarrow> exn + validation_result" where
  "check_references_dir env references_dir result =
     bind_exn (os_query (os_exists env references_dir)) (\<lambda>references_exists.
     if references_exists then
       (let md_files = os_glob env references_dir (lit ''*.md'') in
        Inr (if md_files = [] then
               add_warning result
                 (lit ''references/ directory exists but contains no .md files'')
             else result))
     else Inr result)"

definition check_directories ::
  "os_env \<Rightarrow> path \<Rightarrow> validation_result \<Rightarrow> exn + validation_result" where
  "check_directories env skill_file result =
     (let skill_dir = path_parent skill_file;
          scripts_dir = skill_dir @ [lit ''scripts''];
          references_dir = skill_dir @ [lit ''references'']
      in bind_exn (check_scripts_dir env scripts_dir result)
           (\<lambda>result. check_references_dir env references_dir result))"

text \<open>
  The checks that follow a successful parse, in the order of the source. \<open>strict\<close>
  reaches \<open>check_unexpected\<close> and \<open>check_body\<close> only.
\<close>

definition validate_parsed ::
  "os_env \<Rightarrow> path \<Rightarrow> frontmatter \<Rightarrow> pystr \<Rightarrow> bool \<Rightarrow> validation_result
     \<Rightarrow> exn + validation_result" where
  "validate_parsed env skill_file frontmatter body strict result =
     bind_exn (check_name frontmatter result) (\<lambda>result.
     bind_exn (check_description frontmatter result) (\<lambda>result.
     bind_exn (check_unexpected strict frontmatter result) (\<lambda>result.
     bind_exn (Inr (check_body strict body result)) (\<lambda>result.
     bind_exn (Inr (check_sections env body result)) (\<lambda>result.
     bind_exn (Inr (check_tools frontmatter result)) (\<lambda>result.
     bind_exn (check_model env frontmatter result) (\<lambda>result.
     check_directories env skill_file result)))))))"

text \<open>
  \<^verbatim>\<open>validate_skill(skill_path, strict)\<close>. The two \<^verbatim>\<open>except SkillError\<close> handlers turn a
  skill exception into the single error of the result; any other exception leaves the
  function, and so does an exception of \<^verbatim>\<open>find_skill_file\<close>, which no handler
  surrounds.
\<close>

definition validate_skill :: "os_env \<Rightarrow> path \<Rightarrow> bool \<Rightarrow> exn + validation_result" where
  "validate_skill env skill_path strict =
     (let result = ValidationResult in
      case find_skill_file env skill_path of
        Inl e \<Rightarrow> Inl e
      | Inr None \<Rightarrow>
          Inr (add_error result (lit ''SKILL.md not found in '' @ format_path skill_path))
      | Inr (Some skill_file) \<Rightarrow>
          (case read_file_safe env skill_file default_max_size of
             Inl e \<Rightarrow> if is_SkillError e then Inr (add_error result (exn_str e)) else Inl e
           | Inr content \<Rightarrow>
               (case parse_skill_file (yaml_load env) content of
                  Inl e \<Rightarrow> if is_SkillError e then Inr (add_error result (exn_str e)) else Inl e
                | Inr (frontmatter, body) \<Rightarrow>
                    validate_parsed env skill_file frontmatter body strict result)))"

section \<open>Path containment (skill\_utils.py, safe\_path)\<close>

text \<open>
  \<open>split_path\<close> is \<^verbatim>\<open>PurePosixPath(s).parts\<close>: empty and \<^verbatim>\<open>.\<close> components are dropped,
  \<^verbatim>\<open>..\<close> is kept, a leading \<^verbatim>\<open>/\<close> is the root (exactly two leading slashes are the
  root \<^verbatim>\<open>//\<close>). \<open>joinpath\<close> is \<^verbatim>\<open>base / s\<close>: an absolute \<open>s\<close> replaces the base.
\<close>

definition split_path :: "pystr \<Rightarrow> path" where
  "split_path s =
     (let comps = filter (\<lambda>c. c \<noteq> [] \<and> c \<noteq> lit ''.'') (split_on 47 s)
      in if prefix (lit ''//'') s \<and> \<not> prefix (lit ''///'') s then lit ''//'' # comps
         else if prefix (lit ''/'') s then lit ''/'' # comps
         else comps)"

definition joinpath :: "path \<Rightarrow> pystr \<Rightarrow> path" where
  "joinpath base s =
     (case split_path s of
        [] \<Rightarrow> base
      | r # rest \<Rightarrow> if is_root r then r # rest else base @ r # rest)"

text \<open>\<^verbatim>\<open>path.relative_to(other)\<close>: \<open>None\<close> where it raises \<^verbatim>\<open>ValueError\<close>.\<close>

definition relative_to :: "path \<Rightarrow> path \<Rightarrow> path option" where
  "relative_to p other = (if prefix other p then Some (drop (length other) p) else None)"

definition safe_path :: "os_env \<Rightarrow> path \<Rightarrow> pystr \<Rightarrow> exn + path" where
  "safe_path env base user_input =
     (let resolved = os_resolve env (joinpath base user_input) in
      case relative_to resolved (os_resolve env base) of
        None \<Rightarrow> Inl (ValueError (lit ''Path traversal detected: '' @ user_input))
      | Some rel \<Rightarrow> Inr resolved)"

section \<open>Manifest builder and file collector (package\_skill.py)\<close>

text \<open>
  The manifest is a \<^verbatim>\<open>dict\<close> from strings to values, in insertion order.
  \<^verbatim>\<open>scripts_dir.exists() and any(scripts_dir.iterdir())\<close> raises \<^verbatim>\<open>OSError\<close> where a
  query raises, for instance where the path exists and is no directory.
\<close>

definition includes_dir :: "os_env \<Rightarrow> path \<Rightarrow> exn + yaml" where
  "includes_dir env d =
     bind_exn (os_query (os_exists env d)) (\<lambda>dir_exists.
     if dir_exists then
       bind_exn (os_query (os_iterdir env d)) (\<lambda>entries. Inr (YBool (entries \<noteq> [])))
     else Inr (YBool False))"

definition dict_get :: "frontmatter \<Rightarrow> pystr \<Rightarrow> yaml \<Rightarrow> yaml" where
  "dict_get d key dflt = (case map_of d (YStr key) of None \<Rightarrow> dflt | Some v \<Rightarrow> v)"

definition create_manifest ::
  "os_env \<Rightarrow> path \<Rightarrow> frontmatter \<Rightarrow> exn + (pystr \<times> yaml) list" where
  "create_manifest env skill_dir frontmatter =
     (let manifest =
            [(lit ''name'', dict_get frontmatter (lit ''name'') (YStr [])),
             (lit ''description'', dict_get frontmatter (lit ''description'') (YStr [])),
             (lit ''version'', YStr (lit ''1.0.0'')),
             (lit ''packaged_at'', YStr (utcnow_isoformat env @ lit ''Z'')),
             (lit ''format'', YStr (lit ''claude-skill'')),
             (lit ''format_version'', YStr (lit ''1.0''))];
          manifest1 =
            (case map_of frontmatter (YStr (lit ''tools'')) of
               None \<Rightarrow> manifest
             | Some v \<Rightarrow> manifest @ [(lit ''tools'', v)]);
          manifest2 =
            (case map_of frontmatter (YStr (lit ''model'')) of
               None \<Rightarrow> manifest1
             | Some v \<Rightarrow> manifest1 @ [(lit ''model'', v)]);
          scripts_dir = skill_dir @ [lit ''scripts''];
          references_dir = skill_dir @ [lit ''references'']
      in bind_exn (includes_dir env scripts_dir) (\<lambda>includes_scripts.
         bind_exn (includes_dir env references_dir) (\<lambda>includes_references.
         Inr (manifest2 @ [(lit ''includes_scripts'', includes_scripts),
                           (lit ''includes_references'', includes_references)]))))"

text \<open>
  The loop \<^verbatim>\<open>for file in d.rglob("*"): if file.is_file(): files.append(file)\<close>: the
  entries that are regular files, in the order of \<^verbatim>\<open>rglob\<close>.
\<close>

fun collect_regular :: "os_env \<Rightarrow> path list \<Rightarrow> exn + path list" where
  "collect_regular env [] = Inr []"
| "collect_regular env (file # rest) =
     bind_exn (os_query (os_is_file env file)) (\<lambda>file_is_file.
     bind_exn (collect_regular env rest) (\<lambda>kept.
     Inr (if file_is_file then file # kept else kept)))"

text \<open>
  The blocks "Optional: scripts directory" and "Optional: references directory": what
  the block appends to \<^verbatim>\<open>files\<close>.
\<close>

definition collect_dir :: "os_env \<Rightarrow> path \<Rightarrow> exn + path list" where
  "collect_dir env d =
     bind_exn (os_query (os_exists env d)) (\<lambda>dir_exists.
     if \<not> dir_exists then Inr []
     else
       bind_exn (os_query (os_is_dir env d)) (\<lambda>dir_is_dir.
       if dir_is_dir then collect_regular env (os_rglob env d (lit ''*'')) else Inr []))"

definition collect_files :: "os_env \<Rightarrow> path \<Rightarrow> exn + path list" where
  "collect_files env skill_dir =
     (let skill_file = skill_dir @ [lit ''SKILL.md''] in
      bind_exn (os_query (os_exists env skill_file)) (\<lambda>skill_file_exists.
      if \<not> skill_file_exists then
        Inl (SkillPackagingError (lit ''SKILL.md not found in '' @ path_str skill_dir))
      else
        (let files = [skill_file] in
         bind_exn (collect_dir env (skill_dir @ [lit ''scripts''])) (\<lambda>scripts_files.
         bind_exn (collect_dir env (skill_dir @ [lit ''references''])) (\<lambda>references_files.
         (let files2 = files @ scripts_files @ references_files;
              readme = skill_dir @ [lit ''README.md'']
          in bind_exn (os_query (os_exists env readme)) (\<lambda>readme_exists.
             Inr (if readme_exists then files2 @ [readme] else files2))))))))"

section \<open>Packager (package\_skill.py)\<close>

text \<open>
  The body of a \<^verbatim>\<open>try\<close> block is a list of steps: a write, or a computation that
  raises (\<^verbatim>\<open>json.dumps\<close>, \<^verbatim>\<open>relative_to\<close>). \<open>run_steps\<close> performs them in order up to
  the first that fails; it returns the writes that were done (they are not rolled back)
  and the text of the exception, if any.
\<close>

datatype step = Do io_op | Raise pystr

fun run_steps :: "os_env \<Rightarrow> step list \<Rightarrow> io_op list \<times> pystr option" where
  "run_steps env [] = ([], None)"
| "run_steps env (Raise m # rest) = ([], Some m)"
| "run_steps env (Do op # rest) =
     (case io_error env op of
        Some m \<Rightarrow> ([], Some m)
      | None \<Rightarrow> (case run_steps env rest of (done, err) \<Rightarrow> (op # done, err)))"

definition zip_manifest_steps ::
  "os_env \<Rightarrow> path \<Rightarrow> (pystr \<times> yaml) list option \<Rightarrow> step list" where
  "zip_manifest_steps env output_path manifest =
     (case manifest of
        None \<Rightarrow> []
      | Some m \<Rightarrow>
          (case json_dumps env m of
             Inl e \<Rightarrow> [Raise e]
           | Inr manifest_json \<Rightarrow> [Do (ZipWriteStr output_path (lit ''manifest.json'') manifest_json)]))"

definition zip_file_steps :: "os_env \<Rightarrow> path \<Rightarrow> path \<Rightarrow> path \<Rightarrow> step list" where
  "zip_file_steps env skill_dir output_path file =
     (case relative_to file skill_dir of
        None \<Rightarrow> [Raise (relative_to_message env file skill_dir)]
      | Some arcname \<Rightarrow> [Do (ZipWrite output_path file arcname)])"

definition package_as_zip ::
  "os_env \<Rightarrow> path \<Rightarrow> path \<Rightarrow> (pystr \<times> yaml) list option \<Rightarrow> io_op list \<times> (exn + unit)" where
  "package_as_zip env skill_dir output_path manifest =
     (case collect_files env skill_dir of
        Inl e \<Rightarrow> ([], Inl e)
      | Inr files \<Rightarrow>
          (case run_steps env
                  (Do (ZipCreate output_path)
                   # zip_manifest_steps env output_path manifest
                   @ concat (map (zip_file_steps env skill_dir output_path) files)) of
             (done, None) \<Rightarrow> (done, Inr ())
           | (done, Some e) \<Rightarrow>
               (done, Inl (SkillPackagingError (lit ''Failed to create ZIP: '' @ e)))))"

definition dir_manifest_steps ::
  "os_env \<Rightarrow> path \<Rightarrow> (pystr \<times> yaml) list option \<Rightarrow> step list" where
  "dir_manifest_steps env output_path manifest =
     (case manifest of
        None \<Rightarrow> []
      | Some m \<Rightarrow>
          (case json_dumps env m of
             Inl e \<Rightarrow> [Raise e]
           | Inr manifest_json \<Rightarrow>
               [Do (WriteText (output_path @ [lit ''manifest.json'']) manifest_json)]))"

definition dir_file_steps :: "os_env \<Rightarrow> path \<Rightarrow> path \<Rightarrow> path \<Rightarrow> step list" where
  "dir_file_steps env skill_dir output_path file =
     (case relative_to file skill_dir of
        None \<Rightarrow> [Raise (relative_to_message env file skill_dir)]
      | Some rel_path \<Rightarrow>
          (let dest = output_path @ rel_path
           in [Do (Mkdir (path_parent dest)), Do (Copy2 file dest)]))"

definition package_as_directory ::
  "os_env \<Rightarrow> path \<Rightarrow> path \<Rightarrow> (pystr \<times> yaml) list option \<Rightarrow> io_op list \<times> (exn + unit)" where
  "package_as_directory env skill_dir output_path manifest =
     (case collect_files env skill_dir of
        Inl e \<Rightarrow> ([], Inl e)
      | Inr files \<Rightarrow>
          (case run_steps env
                  (Do (Mkdir output_path)
                   # dir_manifest_steps env output_path manifest
                   @ concat (map (dir_file_steps env skill_dir output_path) files)) of
             (done, None) \<Rightarrow> (done, Inr ())
           | (done, Some e) \<Rightarrow>
               (done, Inl (SkillPackagingError (lit ''Failed to create directory: '' @ e)))))"

text \<open>
  \<^verbatim>\<open>str(result)\<close> of a validation result (\<^verbatim>\<open>ValidationResult.__str__\<close>). The three
  marks are U+274C, U+26A0 U+FE0F and U+2705.
\<close>

definition result_str :: "validation_result \<Rightarrow> pystr" where
  "result_str r =
     (let lines =
            (if errors r \<noteq> [] then
               ([10060] @ lit '' Errors:'') # map (\<lambda>error. lit ''  - '' @ error) (errors r)
             else []);
          lines1 =
            (if warnings r \<noteq> [] then
               (if lines \<noteq> [] then lines @ [[]] else lines)
               @ ([9888, 65039] @ lit ''  Warnings:'')
               # map (\<lambda>warning. lit ''  - '' @ warning) (warnings r)
             else lines);
          lines2 = (if lines1 = [] then [[9989] @ lit '' Validation passed''] else lines1)
      in join [10] lines2)"

text \<open>
  The stages of \<^verbatim>\<open>package_skill\<close> before it writes. \<open>validate_first\<close> is the block
  "Validate if requested"; \<open>output_location\<close> is the block "Determine output path":
  \<^verbatim>\<open>Path(skill_name)\<close> raises \<^verbatim>\<open>TypeError\<close> for a name that is no string.
\<close>

definition validate_first :: "os_env \<Rightarrow> path \<Rightarrow> bool \<Rightarrow> exn + unit" where
  "validate_first env skill_dir validate =
     (if validate then
        (case validate_skill env skill_dir False of
           Inl e \<Rightarrow> Inl e
         | Inr result \<Rightarrow>
             if \<not> is_valid result then
               Inl (SkillError (lit ''Skill validation failed:'' @ [10] @ result_str result
                      @ [10, 10] @ lit ''Use --no-validate to skip validation''))
             else Inr ())
      else Inr ())"

definition output_location ::
  "os_env \<Rightarrow> yaml \<Rightarrow> path option \<Rightarrow> pystr \<Rightarrow> exn + path" where
  "output_location env skill_name output format =
     (case output of
        Some out \<Rightarrow> Inr out
      | None \<Rightarrow>
          if format = lit ''zip'' then Inr (split_path (py_str env skill_name @ lit ''.zip''))
          else (case skill_name of
                  YStr s \<Rightarrow> Inr (split_path s)
                | _ \<Rightarrow> Inl TypeError))"

text \<open>
  \<^verbatim>\<open>package_skill(skill_path, output, format, validate, include_manifest)\<close>: the writes
  it performed, and the path it returns or the exception it raises.
\<close>

definition package_skill ::
  "os_env \<Rightarrow> path \<Rightarrow> path option \<Rightarrow> pystr \<Rightarrow> bool \<Rightarrow> bool \<Rightarrow> io_op list \<times> (exn + path)" where
  "package_skill env skill_path output format validate include_manifest =
     (case find_skill_file env skill_path of
        Inl e \<Rightarrow> ([], Inl e)
      | Inr None \<Rightarrow>
          ([], Inl (SkillPackagingError (lit ''SKILL.md not found in '' @ format_path skill_path)))
      | Inr (Some skill_file) \<Rightarrow>
          (let skill_dir = path_parent skill_file in
           case bind_exn (validate_first env skill_dir validate) (\<lambda>u.
                bind_exn (read_file_safe env skill_file default_max_size) (\<lambda>content.
                bind_exn (parse_skill_file (yaml_load env) content) (\<lambda>(frontmatter, body).
                bind_exn (if include_manifest
                          then bind_exn (create_manifest env skill_dir frontmatter)
                                 (\<lambda>m. Inr (Some m))
                          else Inr None) (\<lambda>manifest.
                bind_exn (output_location env
                            (dict_get frontmatter (lit ''name'') (YStr (path_name skill_dir)))
                            output format) (\<lambda>out.
                Inr (manifest, out)))))) of
             Inl e \<Rightarrow> ([], Inl e)
           | Inr (manifest, out) \<Rightarrow>
               if format = lit ''zip'' then
                 (case package_as_zip env skill_dir out manifest of
                    (done, Inl e) \<Rightarrow> (done, Inl e)
                  | (done, Inr u) \<Rightarrow> (done, Inr out))
               else if format = lit ''directory'' then
                 (case package_as_directory env skill_dir out manifest of
                    (done, Inl e) \<Rightarrow> (done, Inl e)
                  | (done, Inr u) \<Rightarrow> (done, Inr out))
               else ([], Inl (SkillPackagingError (lit ''Unknown format: '' @ format)))))"

section \<open>Vocabulary of the proofs\<close>

text \<open>
  A step of the engine that either raises the same exception whatever the result so far,
  or appends the same warnings to whatever the result so far and changes nothing else.
\<close>

definition warn_step :: "(validation_result \<Rightarrow> exn + validation_result) \<Rightarrow> bool" where
  "warn_step f =
     ((\<exists>e. \<forall>r. f r = Inl e) \<or> (\<exists>ws. \<forall>r. f r = Inr (r\<lparr>warnings := warnings r @ ws\<rparr>)))"

section \<open>Example inputs\<close>

text \<open>
  A YAML loader for the examples of the parser: it loads one header block, and raises
  \<^verbatim>\<open>ValueError\<close> for a header with the impossible date \<^verbatim>\<open>2024-02-30\<close>, as PyYAML does when
  it builds the date.
\<close>

definition ex_yaml_load :: "pystr \<Rightarrow> load_result" where
  "ex_yaml_load s =
     (if s = lit ''name: demo'' then Loaded (YDict [(YStr (lit ''name''), YStr (lit ''demo''))])
      else if s = lit ''d: 2024-02-30'' then
        LoaderRaises (ValueError (lit ''day is out of range for month''))
      else YAMLError (lit ''unexpected input''))"

text \<open>
  A small file system for the examples: a table from absolute paths to nodes. \<open>resolve\<close>
  walks an absolute path from the root, \<^verbatim>\<open>..\<close> stepping back and a symbolic link
  being replaced by its target (the examples link to a plain file, so a target is not
  resolved again).
  \<^verbatim>\<open>glob\<close> and \<^verbatim>\<open>rglob\<close> are given for the patterns \<^verbatim>\<open>*\<close> and \<^verbatim>\<open>*.ext\<close> the core
  uses; no query raises. Files are ASCII, so \<^verbatim>\<open>str.lower\<close> only has to map \<^verbatim>\<open>A-Z\<close>; the examples print
  no sequence or mapping, serialise no manifest and have no failing write.
\<close>

datatype node = RegularFile pystr | Directory | Symlink path

definition follow :: "(path \<times> node) list \<Rightarrow> path \<Rightarrow> path" where
  "follow tbl p = (case map_of tbl p of Some (Symlink target) \<Rightarrow> target | _ \<Rightarrow> p)"

fun resolve_from :: "(path \<times> node) list \<Rightarrow> path \<Rightarrow> path \<Rightarrow> path" where
  "resolve_from tbl acc [] = acc"
| "resolve_from tbl acc (c # cs) =
     (if c = lit ''..'' then resolve_from tbl (if length acc \<le> 1 then acc else butlast acc) cs
      else resolve_from tbl (follow tbl (acc @ [c])) cs)"

definition resolve :: "(path \<times> node) list \<Rightarrow> path \<Rightarrow> path" where
  "resolve tbl p = resolve_from tbl [] p"

definition node_is_file :: "node option \<Rightarrow> bool" where
  "node_is_file n = (case n of Some (RegularFile text) \<Rightarrow> True | _ \<Rightarrow> False)"

definition node_text :: "node option \<Rightarrow> read_result" where
  "node_text n =
     (case n of Some (RegularFile text) \<Rightarrow> ReadText text
      | _ \<Rightarrow> ReadException (lit ''cannot read''))"

definition node_size :: "node option \<Rightarrow> nat" where
  "node_size n = (case n of Some (RegularFile text) \<Rightarrow> length text | _ \<Rightarrow> 0)"

definition ascii_lower :: "pystr \<Rightarrow> pystr" where
  "ascii_lower s = map (\<lambda>c. if 65 \<le> c \<and> c \<le> 90 then c + 32 else c) s"

definition example_env :: "(path \<times> node) list \<Rightarrow> (pystr \<Rightarrow> load_result) \<Rightarrow> os_env" where
  "example_env tbl loader =
     \<lparr> os_exists = (\<lambda>p. Some (map_of tbl (resolve tbl p) \<noteq> None)),
       os_is_file = (\<lambda>p. Some (node_is_file (map_of tbl (resolve tbl p)))),
       os_is_dir = (\<lambda>p. Some (map_of tbl (resolve tbl p) = Some Directory)),
       os_st_size = (\<lambda>p. Some (node_size (map_of tbl (resolve tbl p)))),
       os_st_mode = (\<lambda>p. if map_of tbl (resolve tbl p) \<noteq> None then Some 420 else None),
       os_read_text = (\<lambda>p. node_text (map_of tbl (resolve tbl p))),
       os_glob = (\<lambda>d pat. filter (\<lambda>p. p \<noteq> [] \<and> butlast p = d \<and> suffix (tl pat) (last p))
                              (map fst tbl)),
       os_rglob = (\<lambda>d pat. filter (\<lambda>p. strict_prefix d p \<and> suffix (tl pat) (last p))
                               (map fst tbl)),
       os_iterdir = (\<lambda>d. if map_of tbl (resolve tbl d) = Some Directory
                          then Some (filter (\<lambda>p. p \<noteq> [] \<and> butlast p = d) (map fst tbl))
                          else None),
       os_resolve = resolve tbl,
       sys_platform = lit ''linux'',
       yaml_load = loader,
       str_lower = ascii_lower,
       container_str = (\<lambda>v. []),
       utcnow_isoformat = lit ''2024-01-01T00:00:00'',
       json_dumps = (\<lambda>m. Inr (lit ''{}'')),
       relative_to_message = (\<lambda>p other. lit ''not in the subpath''),
       io_error = (\<lambda>op. None) \<rparr>"

text \<open>
  The skill directory \<^verbatim>\<open>/skills/demo\<close> of the examples, and a \<^verbatim>\<open>SKILL.md\<close> made of a
  header block and a body.
\<close>

definition demo_dir :: path where
  "demo_dir = [lit ''/'', lit ''skills'', lit ''demo'']"

definition skill_md :: "pystr \<Rightarrow> pystr \<Rightarrow> pystr" where
  "skill_md header body = lit ''---'' @ [10] @ header @ [10] @ lit ''---'' @ [10] @ body"

definition good_body :: pystr where
  "good_body = lit ''When to use: whenever a demonstration is needed. ''
     @ lit ''Instructions: follow the steps one by one. Example: run the demo.''"

definition demo_tree :: "pystr \<Rightarrow> pystr \<Rightarrow> (path \<times> node) list" where
  "demo_tree header body =
     [([lit ''/''], Directory),
      ([lit ''/'', lit ''skills''], Directory),
      (demo_dir, Directory),
      (demo_dir @ [lit ''SKILL.md''], RegularFile (skill_md header body))]"

definition one_header :: "pystr \<Rightarrow> frontmatter \<Rightarrow> pystr \<Rightarrow> load_result" where
  "one_header header fm s =
     (if s = header then Loaded (YDict fm) else YAMLError (lit ''not the header''))"

text \<open>
  A skill with the unrecognised field \<^verbatim>\<open>author\<close> and an empty body; the same with the
  good body; a skill without \<^verbatim>\<open>name\<close>; a skill whose \<^verbatim>\<open>name\<close> is the integer 123.
\<close>

definition author_header :: pystr where
  "author_header = lit ''name: demo-skill'' @ [10] @ lit ''description: Does a thing.''
     @ [10] @ lit ''author: me''"

definition author_fm :: frontmatter where
  "author_fm =
     [(YStr (lit ''name''), YStr (lit ''demo-skill'')),
      (YStr (lit ''description''), YStr (lit ''Does a thing.'')),
      (YStr (lit ''author''), YStr (lit ''me''))]"

definition env_author_empty :: os_env where
  "env_author_empty =
     example_env (demo_tree author_header []) (one_header author_header author_fm)"

definition env_author :: os_env where
  "env_author =
     example_env (demo_tree author_header good_body) (one_header author_header author_fm)"

definition noname_header :: pystr where
  "noname_header = lit ''description: Does a thing.''"

definition noname_fm :: frontmatter where
  "noname_fm = [(YStr (lit ''description''), YStr (lit ''Does a thing.''))]"

definition env_noname :: os_env where
  "env_noname =
     example_env (demo_tree noname_header good_body) (one_header noname_header noname_fm)"

definition intname_header :: pystr where
  "intname_header = lit ''name: 123'' @ [10] @ lit ''description: Does a thing.''"

definition intname_fm :: frontmatter where
  "intname_fm =
     [(YStr (lit ''name''), YInt 123),
      (YStr (lit ''description''), YStr (lit ''Does a thing.''))]"

definition env_intname :: os_env where
  "env_intname =
     example_env (demo_tree intname_header good_body) (one_header intname_header intname_fm)"

text \<open>
  A valid skill (header \<^verbatim>\<open>name\<close>, \<^verbatim>\<open>description\<close>) whose \<^verbatim>\<open>README.md\<close> is a directory;
  and one whose \<^verbatim>\<open>scripts/leak\<close> is a symbolic link to \<^verbatim>\<open>/etc/passwd\<close>.
\<close>

definition plain_header :: pystr where
  "plain_header = lit ''name: demo-skill'' @ [10] @ lit ''description: Does a thing.''"

definition plain_fm :: frontmatter where
  "plain_fm =
     [(YStr (lit ''name''), YStr (lit ''demo-skill'')),
      (YStr (lit ''description''), YStr (lit ''Does a thing.''))]"

definition env_readme_dir :: os_env where
  "env_readme_dir =
     example_env
       (demo_tree plain_header good_body @ [(demo_dir @ [lit ''README.md''], Directory)])
       (one_header plain_header plain_fm)"

definition env_symlink :: os_env where
  "env_symlink =
     example_env
       (demo_tree plain_header good_body
        @ [([lit ''/'', lit ''etc''], Directory),
           ([lit ''/'', lit ''etc'', lit ''passwd''], RegularFile (lit ''root:x:0:0'')),
           (demo_dir @ [lit ''scripts''], Directory),
           (demo_dir @ [lit ''scripts'', lit ''leak''],
              Symlink [lit ''/'', lit ''etc'', lit ''passwd''])])
       (one_header plain_header plain_fm)"

section \<open>Properties of the field validators\<close>

lemma re_match_name_chars:
  assumes "re_match_name s"
  shows "set s \<subseteq> {c. name_char c} \<union> {10}"
proof -
  have "s = takeWhile name_char s @ dropWhile name_char s" by simp
  then have "set s = set (takeWhile name_char s) \<union> set (dropWhile name_char s)"
    by (metis set_append)
  moreover have "set (takeWhile name_char s) \<subseteq> {c. name_char c}"
    by (auto dest: set_takeWhileD)
  moreover have "set (dropWhile name_char s) \<subseteq> {10}"
  proof -
    from assms have "dropWhile name_char s = [] \<or> dropWhile name_char s = [10]"
      unfolding re_match_name_def Let_def by blast
    then show ?thesis by (elim disjE) (simp_all only: set_simps empty_subsetI subset_refl)
  qed
  ultimately show ?thesis by blast
qed

lemma re_match_name_all:
  assumes "s \<noteq> []" and "list_all name_char s"
  shows "re_match_name s"
proof -
  from assms(2) have "takeWhile name_char s = s" and "dropWhile name_char s = []"
    by (simp_all add: list_all_iff)
  with assms(1) show ?thesis by (simp add: re_match_name_def Let_def del: takeWhile_eq_all_conv dropWhile_eq_Nil_conv)
qed

lemma name_alphabet:
  "c \<in> set (lit ''abcdefghijklmnopqrstuvwxyz0123456789-'') \<Longrightarrow> name_char c"
  by (auto simp: lit_def name_char_def)

lemma name_char_no_angle: "name_char c \<Longrightarrow> c \<noteq> 60 \<and> c \<noteq> 62"
  by (auto simp: name_char_def)

lemma re_match_name_no_angle:
  assumes "re_match_name s"
  shows "60 \<notin> set s \<and> 62 \<notin> set s"
  using re_match_name_chars[OF assms] name_char_no_angle by fastforce

lemma match_xml_tag_at_iff:
  "match_xml_tag_at s \<longleftrightarrow> (\<exists>mid post. s = [60] @ mid @ [62] @ post \<and> mid \<noteq> [] \<and> 62 \<notin> set mid)"
proof
  assume m: "match_xml_tag_at s"
  then obtain cs where s: "s = 60 # cs"
    and t: "takeWhile (\<lambda>x. x \<noteq> 62) cs \<noteq> []" and d: "dropWhile (\<lambda>x. x \<noteq> 62) cs \<noteq> []"
    by (auto simp: match_xml_tag_at_def split: list.splits)
  let ?mid = "takeWhile (\<lambda>x. x \<noteq> 62) cs"
  from d have "hd (dropWhile (\<lambda>x. x \<noteq> 62) cs) = 62"
    using hd_dropWhile[of "\<lambda>x. x \<noteq> 62" cs] by blast
  with d obtain post where p: "dropWhile (\<lambda>x. x \<noteq> 62) cs = 62 # post"
    by (cases "dropWhile (\<lambda>x. x \<noteq> 62) cs") auto
  have "cs = ?mid @ dropWhile (\<lambda>x. x \<noteq> 62) cs" by simp
  with p have "cs = ?mid @ [62] @ post" by simp
  moreover have "62 \<notin> set ?mid" by (auto dest: set_takeWhileD)
  ultimately show "\<exists>mid post. s = [60] @ mid @ [62] @ post \<and> mid \<noteq> [] \<and> 62 \<notin> set mid"
    using s t by auto
next
  assume "\<exists>mid post. s = [60] @ mid @ [62] @ post \<and> mid \<noteq> [] \<and> 62 \<notin> set mid"
  then obtain mid post where s: "s = [60] @ mid @ [62] @ post" and ne: "mid \<noteq> []"
    and no: "62 \<notin> set mid" by blast
  from no have tw: "takeWhile (\<lambda>x. x \<noteq> 62) (mid @ 62 # post) = mid"
    by (simp add: takeWhile_append2 [where ?P = "\<lambda>x. x \<noteq> 62"] takeWhile_append)
  from no have dw: "dropWhile (\<lambda>x. x \<noteq> 62) (mid @ 62 # post) = 62 # post"
    by (simp add: dropWhile_append)
  show "match_xml_tag_at s"
    using s ne tw dw by (simp add: match_xml_tag_at_def)
qed

lemma re_search_xml_tag_iff:
  "re_search_xml_tag s \<longleftrightarrow>
     (\<exists>pre mid post. s = pre @ [60] @ mid @ [62] @ post \<and> mid \<noteq> [] \<and> 62 \<notin> set mid)"
proof (induction s)
  case Nil
  then show ?case by simp
next
  case (Cons c cs)
  show ?case
  proof
    assume "re_search_xml_tag (c # cs)"
    then consider "match_xml_tag_at (c # cs)" | "re_search_xml_tag cs" by auto
    then show "\<exists>pre mid post. c # cs = pre @ [60] @ mid @ [62] @ post \<and> mid \<noteq> [] \<and> 62 \<notin> set mid"
    proof cases
      case 1
      then obtain mid post where "c # cs = [60] @ mid @ [62] @ post" "mid \<noteq> []" "62 \<notin> set mid"
        unfolding match_xml_tag_at_iff by blast
      then have "c # cs = [] @ [60] @ mid @ [62] @ post \<and> mid \<noteq> [] \<and> 62 \<notin> set mid" by simp
      then show ?thesis by blast
    next
      case 2
      with Cons.IH obtain pre mid post where "cs = pre @ [60] @ mid @ [62] @ post" "mid \<noteq> []"
        "62 \<notin> set mid" by blast
      then have "c # cs = (c # pre) @ [60] @ mid @ [62] @ post \<and> mid \<noteq> [] \<and> 62 \<notin> set mid" by simp
      then show ?thesis by blast
    qed
  next
    assume "\<exists>pre mid post. c # cs = pre @ [60] @ mid @ [62] @ post \<and> mid \<noteq> [] \<and> 62 \<notin> set mid"
    then obtain pre mid post where e: "c # cs = pre @ [60] @ mid @ [62] @ post" and ne: "mid \<noteq> []"
      and no: "62 \<notin> set mid" by blast
    show "re_search_xml_tag (c # cs)"
    proof (cases pre)
      case Nil
      with e ne no have "match_xml_tag_at (c # cs)"
        unfolding match_xml_tag_at_iff by auto
      then show ?thesis by simp
    next
      case (Cons p pre')
      with e have "cs = pre' @ [60] @ mid @ [62] @ post" by simp
      with ne no Cons.IH have "re_search_xml_tag cs" by blast
      then show ?thesis by simp
    qed
  qed
qed

lemma strip_Nil_iff: "strip s = [] \<longleftrightarrow> list_all is_space s"
proof -
  have "strip s = [] \<longleftrightarrow> dropWhile is_space (rev (dropWhile is_space s)) = []"
    by (simp add: strip_def)
  also have "\<dots> \<longleftrightarrow> (\<forall>x \<in> set (dropWhile is_space s). is_space x)"
    by simp
  also have "\<dots> \<longleftrightarrow> dropWhile is_space s = []"
  proof
    assume a: "\<forall>x \<in> set (dropWhile is_space s). is_space x"
    show "dropWhile is_space s = []"
    proof (rule ccontr)
      assume n: "dropWhile is_space s \<noteq> []"
      then have "\<not> is_space (hd (dropWhile is_space s))" by (rule hd_dropWhile)
      moreover from n have "hd (dropWhile is_space s) \<in> set (dropWhile is_space s)" by simp
      ultimately show False using a by blast
    qed
  next
    assume "dropWhile is_space s = []"
    then show "\<forall>x \<in> set (dropWhile is_space s). is_space x" by (simp only: set_simps ball_empty)
  qed
  also have "\<dots> \<longleftrightarrow> list_all is_space s"
    by (simp add: list_all_iff)
  finally show ?thesis .
qed

subsection \<open>Claims about the validators\<close>

text \<open>
  Claim C9. Every name of length 1 to 64 whose characters are all lowercase letters,
  digits or hyphens, and which contains neither \<^verbatim>\<open>anthropic\<close> nor \<^verbatim>\<open>claude\<close>, is
  accepted by the name validator with an empty message. (Such a name holds no angle
  bracket, so that condition of the claim needs no hypothesis of its own.)
\<close>

theorem validate_skill_name_accepts:
  assumes "1 \<le> length name" and "length name \<le> 64"
    and "set name \<subseteq> set (lit ''abcdefghijklmnopqrstuvwxyz0123456789-'')"
    and "\<not> sublist (lit ''anthropic'') name" and "\<not> sublist (lit ''claude'') name"
  shows "validate_skill_name name = (True, [])"
proof -
  from assms(1) have ne: "name \<noteq> []" by auto
  from assms(3) have "list_all name_char name"
    by (auto simp: list_all_iff intro: name_alphabet)
  with ne have m: "re_match_name name" by (rule re_match_name_all)
  then have "60 \<notin> set name \<and> 62 \<notin> set name" by (rule re_match_name_no_angle)
  with ne m assms(2,4,5) show ?thesis
    by (simp add: validate_skill_name_def)
qed

text \<open>The hypotheses of C9 hold for the name \<^verbatim>\<open>my-skill\<close> of the source's docstring.\<close>

theorem validate_skill_name_accepts_witness:
  "1 \<le> length (lit ''my-skill'') \<and> length (lit ''my-skill'') \<le> 64
   \<and> set (lit ''my-skill'') \<subseteq> set (lit ''abcdefghijklmnopqrstuvwxyz0123456789-'')
   \<and> \<not> sublist (lit ''anthropic'') (lit ''my-skill'')
   \<and> \<not> sublist (lit ''claude'') (lit ''my-skill'')
   \<and> validate_skill_name (lit ''my-skill'') = (True, [])"
proof -
  have h1: "1 \<le> length (lit ''my-skill'')" and h2: "length (lit ''my-skill'') \<le> 64"
    by (simp_all add: lit_def)
  have h3: "set (lit ''my-skill'') \<subseteq> set (lit ''abcdefghijklmnopqrstuvwxyz0123456789-'')"
    by (simp add: lit_def)
  have h4: "\<not> sublist (lit ''anthropic'') (lit ''my-skill'')"
    and h5: "\<not> sublist (lit ''claude'') (lit ''my-skill'')"
    by (simp_all add: lit_def sublist_code)
  from validate_skill_name_accepts [OF h1 h2 h3 h4 h5] h1 h2 h3 h4 h5 show ?thesis by blast
qed

text \<open>
  Claim C10. The name validator never returns the message of its angle-bracket check:
  a name that passes the character-class check holds neither \<^verbatim>\<open><\<close> nor \<^verbatim>\<open>>\<close>
  (its characters are in the class, apart from a final newline that \<^verbatim>\<open>$\<close> lets
  through), so that branch is never taken, and no other branch returns its message.
\<close>

theorem validate_skill_name_xml_branch_unreachable:
  "(re_match_name name \<longrightarrow> 60 \<notin> set name \<and> 62 \<notin> set name)
   \<and> snd (validate_skill_name name) \<noteq> lit ''Skill name cannot contain XML tags''"
proof
  show "re_match_name name \<longrightarrow> 60 \<notin> set name \<and> 62 \<notin> set name"
    using re_match_name_no_angle by blast
next
  have a: "lit ''Skill name is required'' \<noteq> lit ''Skill name cannot contain XML tags''"
    by (simp add: lit_def)
  have b: "lit ''Skill name too long ('' @ x \<noteq> lit ''Skill name cannot contain XML tags''" for x
    by (simp add: lit_def)
  have c: "lit ''Skill name must be lowercase with hyphens only (a-z, 0-9, -)''
           \<noteq> lit ''Skill name cannot contain XML tags''"
    by (simp add: lit_def)
  have d: "lit ''Skill name cannot contain \"anthropic\" or \"claude\"''
           \<noteq> lit ''Skill name cannot contain XML tags''"
    by (simp add: lit_def)
  have e: "[] \<noteq> lit ''Skill name cannot contain XML tags''"
    by (simp add: lit_def)
  show "snd (validate_skill_name name) \<noteq> lit ''Skill name cannot contain XML tags''"
  proof (cases "re_match_name name")
    case True
    then have "60 \<notin> set name \<and> 62 \<notin> set name" by (rule re_match_name_no_angle)
    with True a b d e show ?thesis
      unfolding validate_skill_name_def by simp
  next
    case False
    with a b c show ?thesis
      unfolding validate_skill_name_def by simp
  qed
qed

text \<open>A name that passes the class check only thanks to the final newline.\<close>

theorem validate_skill_name_xml_branch_unreachable_witness:
  "re_match_name (lit ''my-skill'' @ [10])
   \<and> 60 \<notin> set (lit ''my-skill'' @ [10]) \<and> 62 \<notin> set (lit ''my-skill'' @ [10])
   \<and> validate_skill_name (lit ''my-skill'' @ [10]) = (True, [])
   \<and> snd (validate_skill_name (lit ''my-skill'' @ [10])) \<noteq> lit ''Skill name cannot contain XML tags''"
proof -
  have m: "re_match_name (lit ''my-skill'' @ [10])"
    by (simp add: re_match_name_def lit_def name_char_def)
  have v: "validate_skill_name (lit ''my-skill'' @ [10]) = (True, [])"
    by (simp add: validate_skill_name_def lit_def re_match_name_def name_char_def sublist_code)
  from validate_skill_name_xml_branch_unreachable [of "lit ''my-skill'' @ [10]"] m v
  show ?thesis by blast
qed

text \<open>
  Claim C5, as amended. Every description that is not empty, is not made of whitespace
  only, has at most 1024 characters and has no substring of the shape \<^verbatim>\<open><\<close>, one or
  more characters other than \<^verbatim>\<open>>\<close>, \<^verbatim>\<open>>\<close>, is accepted by the description validator
  with an empty message.
\<close>

theorem validate_skill_description_accepts:
  assumes "description \<noteq> []" and "\<not> list_all is_space description"
    and "length description \<le> 1024"
    and "\<not> (\<exists>pre mid post. description = pre @ [60] @ mid @ [62] @ post
              \<and> mid \<noteq> [] \<and> 62 \<notin> set mid)"
  shows "validate_skill_description description = (True, [])"
proof -
  from assms(2) have "strip description \<noteq> []" by (simp add: strip_Nil_iff)
  moreover from assms(4) have "\<not> re_search_xml_tag description"
    using re_search_xml_tag_iff by blast
  ultimately show ?thesis
    using assms(1,3) by (simp add: validate_skill_description_def)
qed

text \<open>A description with an unclosed \<^verbatim>\<open><\<close> satisfies the hypotheses.\<close>

theorem validate_skill_description_accepts_witness:
  "lit ''A helpful <skill'' \<noteq> [] \<and> \<not> list_all is_space (lit ''A helpful <skill'')
   \<and> length (lit ''A helpful <skill'') \<le> 1024
   \<and> \<not> (\<exists>pre mid post. lit ''A helpful <skill'' = pre @ [60] @ mid @ [62] @ post
              \<and> mid \<noteq> [] \<and> 62 \<notin> set mid)
   \<and> validate_skill_description (lit ''A helpful <skill'') = (True, [])"
proof -
  have h1: "lit ''A helpful <skill'' \<noteq> []" by (simp add: lit_def)
  have h2: "\<not> list_all is_space (lit ''A helpful <skill'')" by (simp add: lit_def is_space_def)
  have h3: "length (lit ''A helpful <skill'') \<le> 1024" by (simp add: lit_def)
  have "\<not> re_search_xml_tag (lit ''A helpful <skill'')"
    by (simp add: lit_def match_xml_tag_at_def)
  then have h4: "\<not> (\<exists>pre mid post. lit ''A helpful <skill'' = pre @ [60] @ mid @ [62] @ post
              \<and> mid \<noteq> [] \<and> 62 \<notin> set mid)"
    using re_search_xml_tag_iff by blast
  from validate_skill_description_accepts [OF h1 h2 h3 h4] h1 h2 h3 h4 show ?thesis by blast
qed

text \<open>
  Claim C5 as stated fails: a single space is a non-empty description of at most 1024
  characters without a tag-shaped substring, and the validator rejects it.
\<close>

theorem validate_skill_description_whitespace_counterexample:
  "lit '' '' \<noteq> [] \<and> length (lit '' '') \<le> 1024
   \<and> \<not> (\<exists>pre mid post. lit '' '' = pre @ [60] @ mid @ [62] @ post \<and> mid \<noteq> [] \<and> 62 \<notin> set mid)
   \<and> validate_skill_description (lit '' '')
       = (False, lit ''Description cannot be only whitespace'')"
proof -
  have "\<not> re_search_xml_tag (lit '' '')"
    by (simp add: lit_def match_xml_tag_at_def)
  then have "\<not> (\<exists>pre mid post. lit '' '' = pre @ [60] @ mid @ [62] @ post
              \<and> mid \<noteq> [] \<and> 62 \<notin> set mid)"
    using re_search_xml_tag_iff by blast
  moreover have "strip (lit '' '') = []" by (simp add: strip_def lit_def is_space_def)
  moreover have "lit '' '' \<noteq> []" "length (lit '' '') \<le> 1024" by (simp_all add: lit_def)
  ultimately show ?thesis by (simp add: validate_skill_description_def)
qed

section \<open>Properties of the header parser\<close>

lemma find_first_Some:
  assumes "find_first sep s = Some (a, b)"
  shows "s = a @ sep @ b \<and> (\<forall>a' b'. s = a' @ sep @ b' \<longrightarrow> length a \<le> length a')"
  using assms
proof (induction s arbitrary: a b)
  case Nil
  then show ?case by (auto split: if_splits)
next
  case (Cons c cs)
  show ?case
  proof (cases "prefix sep (c # cs)")
    case True
    with Cons.prems have "a = []" and "b = drop (length sep) (c # cs)" by auto
    moreover from True obtain r where "c # cs = sep @ r" by (auto simp: prefix_def)
    ultimately show ?thesis by auto
  next
    case False
    with Cons.prems obtain a1 where f: "find_first sep cs = Some (a1, b)" and a: "a = c # a1"
      by (auto split: option.splits)
    from Cons.IH [OF f] have eq: "cs = a1 @ sep @ b"
      and least: "\<And>a' b'. cs = a' @ sep @ b' \<Longrightarrow> length a1 \<le> length a'" by auto
    have "length a \<le> length a'" if d: "c # cs = a' @ sep @ b'" for a' b'
    proof (cases a')
      case Nil
      with d have "prefix sep (c # cs)" by (simp add: prefix_def)
      with False show ?thesis by simp
    next
      case (Cons x a'')
      with d have "cs = a'' @ sep @ b'" by simp
      then have "length a1 \<le> length a''" by (rule least)
      with a Cons show ?thesis by simp
    qed
    with eq a show ?thesis by simp
  qed
qed

lemma find_first_None:
  assumes "find_first sep s = None"
  shows "\<not> (\<exists>a b. s = a @ sep @ b)"
  using assms
proof (induction s)
  case Nil
  then show ?case by (auto split: if_splits)
next
  case (Cons c cs)
  from Cons.prems have np: "\<not> prefix sep (c # cs)" and n: "find_first sep cs = None"
    by (auto split: if_splits option.splits)
  from Cons.IH [OF n] have ih: "\<not> (\<exists>a b. cs = a @ sep @ b)" .
  show ?case
  proof
    assume "\<exists>a b. c # cs = a @ sep @ b"
    then obtain a b where d: "c # cs = a @ sep @ b" by blast
    show False
    proof (cases a)
      case Nil
      with d have "prefix sep (c # cs)" by (simp add: prefix_def)
      with np show False by simp
    next
      case (Cons x a')
      with d have "cs = a' @ sep @ b" by simp
      with ih show False by blast
    qed
  qed
qed

lemma open_line_length: "length (lit ''---'' @ [10]) = 4"
  by (simp add: lit_def)

lemma re_match_frontmatter_Some:
  assumes "re_match_frontmatter content = Some (h, b)"
  shows "content = (lit ''---'' @ [10]) @ h @ ([10] @ lit ''---'' @ [10]) @ b
         \<and> (\<forall>h' b'. content = (lit ''---'' @ [10]) @ h' @ ([10] @ lit ''---'' @ [10]) @ b'
               \<longrightarrow> length h \<le> length h')"
proof -
  from assms have p: "prefix (lit ''---'' @ [10]) content"
    and f: "find_first ([10] @ lit ''---'' @ [10]) (drop 4 content) = Some (h, b)"
    by (auto simp: re_match_frontmatter_def split: if_splits)
  from p obtain r where c: "content = (lit ''---'' @ [10]) @ r" by (auto simp: prefix_def)
  then have r: "drop 4 content = r" using open_line_length by simp
  from find_first_Some [OF f] r
  have eq: "r = h @ ([10] @ lit ''---'' @ [10]) @ b"
    and least: "\<And>a' b'. r = a' @ ([10] @ lit ''---'' @ [10]) @ b' \<Longrightarrow> length h \<le> length a'"
    by auto
  have "length h \<le> length h'"
    if "content = (lit ''---'' @ [10]) @ h' @ ([10] @ lit ''---'' @ [10]) @ b'" for h' b'
  proof -
    from that c have "r = h' @ ([10] @ lit ''---'' @ [10]) @ b'" by simp
    then show ?thesis by (rule least)
  qed
  with c eq show ?thesis by simp
qed

lemma re_match_frontmatter_None:
  assumes "re_match_frontmatter content = None"
  shows "\<not> (\<exists>h b. content = (lit ''---'' @ [10]) @ h @ ([10] @ lit ''---'' @ [10]) @ b)"
proof
  assume "\<exists>h b. content = (lit ''---'' @ [10]) @ h @ ([10] @ lit ''---'' @ [10]) @ b"
  then obtain h b where c: "content = (lit ''---'' @ [10]) @ h @ ([10] @ lit ''---'' @ [10]) @ b"
    by blast
  then have p: "prefix (lit ''---'' @ [10]) content" by (simp add: prefix_def)
  from c have "drop 4 content = h @ ([10] @ lit ''---'' @ [10]) @ b"
    using open_line_length by simp
  moreover from assms p have "find_first ([10] @ lit ''---'' @ [10]) (drop 4 content) = None"
    by (simp add: re_match_frontmatter_def)
  ultimately show False using find_first_None by blast
qed

lemma starts_with_dashes_not_blank:
  assumes "prefix (lit ''---'') content"
  shows "strip content \<noteq> []"
proof -
  from assms obtain r where "content = lit ''---'' @ r" by (auto simp: prefix_def)
  then have "45 \<in> set content" by (simp add: lit_def)
  moreover have "\<not> is_space 45" by (simp add: is_space_def)
  ultimately show ?thesis by (auto simp: strip_Nil_iff list_all_iff)
qed

text \<open>
  Claim C7. Whenever the text is an opening line \<^verbatim>\<open>---\<close>, a header block, a line
  \<^verbatim>\<open>---\<close> and a body, the parser takes the shortest such header block (so a later
  \<^verbatim>\<open>---\<close> line belongs to the body) and hands that block to the YAML loader. When the
  loader returns a mapping, the parser returns that mapping unchanged and the body
  stripped of surrounding whitespace. The other outcomes are those of the loader: a
  \<^verbatim>\<open>YAMLError\<close> becomes the invalid-YAML error, any other exception of the loader is
  raised as it is, and a value that is no mapping gives the not-a-mapping error. A text
  that starts with \<^verbatim>\<open>---\<close> and has no such shape fails with the invalid-format error.
\<close>

theorem parse_skill_file_shape:
  "(\<forall>H B. content = (lit ''---'' @ [10]) @ H @ ([10] @ lit ''---'' @ [10]) @ B \<longrightarrow>
      (\<exists>H0 B0. content = (lit ''---'' @ [10]) @ H0 @ ([10] @ lit ''---'' @ [10]) @ B0
         \<and> (\<forall>H' B'. content = (lit ''---'' @ [10]) @ H' @ ([10] @ lit ''---'' @ [10]) @ B'
                \<longrightarrow> length H0 \<le> length H')
         \<and> parse_skill_file yaml_safe_load content =
             (case yaml_safe_load H0 of
                YAMLError e \<Rightarrow>
                  Inl (SkillValidationError (lit ''Invalid YAML in frontmatter: '' @ e))
              | LoaderRaises x \<Rightarrow> Inl x
              | Loaded (YDict frontmatter) \<Rightarrow> Inr (frontmatter, strip B0)
              | Loaded _ \<Rightarrow>
                  Inl (SkillValidationError (lit ''Frontmatter must be a YAML dictionary/object'')))))
   \<and> (prefix (lit ''---'') content
        \<and> \<not> (\<exists>H B. content = (lit ''---'' @ [10]) @ H @ ([10] @ lit ''---'' @ [10]) @ B)
      \<longrightarrow> parse_skill_file yaml_safe_load content
            = Inl (SkillValidationError invalid_format_message))"
proof (intro conjI allI impI)
  fix H B
  assume c: "content = (lit ''---'' @ [10]) @ H @ ([10] @ lit ''---'' @ [10]) @ B"
  then have p: "prefix (lit ''---'') content" by (simp add: prefix_def)
  then have ne: "strip content \<noteq> []" by (rule starts_with_dashes_not_blank)
  obtain H0 B0 where m: "re_match_frontmatter content = Some (H0, B0)"
  proof (cases "re_match_frontmatter content")
    case None
    with c re_match_frontmatter_None show ?thesis by blast
  next
    case (Some hb)
    with that show ?thesis by (cases hb) auto
  qed
  from re_match_frontmatter_Some [OF m]
  have "content = (lit ''---'' @ [10]) @ H0 @ ([10] @ lit ''---'' @ [10]) @ B0"
    and "\<forall>H' B'. content = (lit ''---'' @ [10]) @ H' @ ([10] @ lit ''---'' @ [10]) @ B'
           \<longrightarrow> length H0 \<le> length H'"
    by blast+
  moreover from p ne m have "parse_skill_file yaml_safe_load content =
             (case yaml_safe_load H0 of
                YAMLError e \<Rightarrow>
                  Inl (SkillValidationError (lit ''Invalid YAML in frontmatter: '' @ e))
              | LoaderRaises x \<Rightarrow> Inl x
              | Loaded (YDict frontmatter) \<Rightarrow> Inr (frontmatter, strip B0)
              | Loaded _ \<Rightarrow>
                  Inl (SkillValidationError (lit ''Frontmatter must be a YAML dictionary/object'')))"
    by (simp add: parse_skill_file_def)
  ultimately show "\<exists>H0 B0. content = (lit ''---'' @ [10]) @ H0 @ ([10] @ lit ''---'' @ [10]) @ B0
         \<and> (\<forall>H' B'. content = (lit ''---'' @ [10]) @ H' @ ([10] @ lit ''---'' @ [10]) @ B'
                \<longrightarrow> length H0 \<le> length H')
         \<and> parse_skill_file yaml_safe_load content =
             (case yaml_safe_load H0 of
                YAMLError e \<Rightarrow>
                  Inl (SkillValidationError (lit ''Invalid YAML in frontmatter: '' @ e))
              | LoaderRaises x \<Rightarrow> Inl x
              | Loaded (YDict frontmatter) \<Rightarrow> Inr (frontmatter, strip B0)
              | Loaded _ \<Rightarrow>
                  Inl (SkillValidationError (lit ''Frontmatter must be a YAML dictionary/object'')))"
    by blast
next
  assume a: "prefix (lit ''---'') content
        \<and> \<not> (\<exists>H B. content = (lit ''---'' @ [10]) @ H @ ([10] @ lit ''---'' @ [10]) @ B)"
  then have ne: "strip content \<noteq> []" using starts_with_dashes_not_blank by blast
  have "re_match_frontmatter content = None"
  proof (cases "re_match_frontmatter content")
    case None
    then show ?thesis .
  next
    case (Some hb)
    then obtain h b where "re_match_frontmatter content = Some (h, b)" by (cases hb) auto
    from re_match_frontmatter_Some [OF this] a show ?thesis by blast
  qed
  with a ne show "parse_skill_file yaml_safe_load content
            = Inl (SkillValidationError invalid_format_message)"
    by (simp add: parse_skill_file_def)
qed

text \<open>
  A document with a second \<^verbatim>\<open>---\<close> line: it stays in the body. A document whose
  header block is missing (the two delimiter lines touch) is malformed. A document
  whose header makes the loader raise \<^verbatim>\<open>ValueError\<close>: the parser raises it unchanged.
\<close>

theorem parse_skill_file_shape_witness:
  "parse_skill_file ex_yaml_load
      (lit ''---'' @ [10] @ lit ''name: demo'' @ [10] @ lit ''---'' @ [10]
        @ lit ''Body'' @ [10] @ lit ''---'' @ [10] @ lit ''more'' @ [10])
     = Inr ([(YStr (lit ''name''), YStr (lit ''demo''))],
            lit ''Body'' @ [10] @ lit ''---'' @ [10] @ lit ''more'')
   \<and> prefix (lit ''---'') (lit ''---'' @ [10] @ lit ''---'' @ [10] @ lit ''Body'')
   \<and> \<not> (\<exists>H B. lit ''---'' @ [10] @ lit ''---'' @ [10] @ lit ''Body''
                = (lit ''---'' @ [10]) @ H @ ([10] @ lit ''---'' @ [10]) @ B)
   \<and> parse_skill_file ex_yaml_load (lit ''---'' @ [10] @ lit ''---'' @ [10] @ lit ''Body'')
       = Inl (SkillValidationError invalid_format_message)
   \<and> parse_skill_file ex_yaml_load
         (lit ''---'' @ [10] @ lit ''d: 2024-02-30'' @ [10] @ lit ''---'' @ [10] @ lit ''Body'')
       = Inl (ValueError (lit ''day is out of range for month''))"
proof -
  let ?good = "lit ''---'' @ [10] @ lit ''name: demo'' @ [10] @ lit ''---'' @ [10]
        @ lit ''Body'' @ [10] @ lit ''---'' @ [10] @ lit ''more'' @ [10]"
  let ?bad = "lit ''---'' @ [10] @ lit ''---'' @ [10] @ lit ''Body''"
  have shape: "?good = (lit ''---'' @ [10]) @ lit ''name: demo'' @ ([10] @ lit ''---'' @ [10])
                 @ (lit ''Body'' @ [10] @ lit ''---'' @ [10] @ lit ''more'' @ [10])"
    by simp
  from parse_skill_file_shape [of ?good ex_yaml_load] shape
  obtain H0 B0 where eq: "?good = (lit ''---'' @ [10]) @ H0 @ ([10] @ lit ''---'' @ [10]) @ B0"
    and least: "\<forall>H' B'. ?good = (lit ''---'' @ [10]) @ H' @ ([10] @ lit ''---'' @ [10]) @ B'
                \<longrightarrow> length H0 \<le> length H'"
    and res: "parse_skill_file ex_yaml_load ?good =
             (case ex_yaml_load H0 of
                YAMLError e \<Rightarrow>
                  Inl (SkillValidationError (lit ''Invalid YAML in frontmatter: '' @ e))
              | LoaderRaises x \<Rightarrow> Inl x
              | Loaded (YDict frontmatter) \<Rightarrow> Inr (frontmatter, strip B0)
              | Loaded _ \<Rightarrow>
                  Inl (SkillValidationError (lit ''Frontmatter must be a YAML dictionary/object'')))"
    by blast
  have m: "re_match_frontmatter ?good = Some (lit ''name: demo'',
             lit ''Body'' @ [10] @ lit ''---'' @ [10] @ lit ''more'' @ [10])"
    by (simp add: re_match_frontmatter_def lit_def)
  have "length H0 \<le> length (lit ''name: demo'')" using least shape by blast
  with eq have "H0 = lit ''name: demo''"
    by (simp add: lit_def append_eq_Cons_conv) (auto simp: Cons_eq_append_conv)
  with eq have "B0 = lit ''Body'' @ [10] @ lit ''---'' @ [10] @ lit ''more'' @ [10]"
    by simp
  with res \<open>H0 = lit ''name: demo''\<close>
  have good: "parse_skill_file ex_yaml_load ?good
     = Inr ([(YStr (lit ''name''), YStr (lit ''demo''))],
            lit ''Body'' @ [10] @ lit ''---'' @ [10] @ lit ''more'')"
    by (simp add: ex_yaml_load_def strip_def is_space_def lit_def)
  have p: "prefix (lit ''---'') ?bad" by (simp add: prefix_def)
  have "re_match_frontmatter ?bad = None"
    by (simp add: re_match_frontmatter_def lit_def)
  then have n: "\<not> (\<exists>H B. ?bad = (lit ''---'' @ [10]) @ H @ ([10] @ lit ''---'' @ [10]) @ B)"
    by (rule re_match_frontmatter_None)
  with p parse_skill_file_shape [of ?bad ex_yaml_load]
  have "parse_skill_file ex_yaml_load ?bad = Inl (SkillValidationError invalid_format_message)"
    by blast
  moreover have "parse_skill_file ex_yaml_load
         (lit ''---'' @ [10] @ lit ''d: 2024-02-30'' @ [10] @ lit ''---'' @ [10] @ lit ''Body'')
       = Inl (ValueError (lit ''day is out of range for month''))"
    by (simp add: parse_skill_file_def re_match_frontmatter_def ex_yaml_load_def strip_def
          is_space_def lit_def)
  ultimately show ?thesis using good p n by blast
qed

section \<open>Properties of the validation engine\<close>

lemma warn_step_bind:
  assumes "warn_step f" and "warn_step g"
  shows "warn_step (\<lambda>r. bind_exn (f r) g)"
proof -
  from assms(1) consider e where "\<forall>r. f r = Inl e"
    | ws where "\<forall>r. f r = Inr (r\<lparr>warnings := warnings r @ ws\<rparr>)"
    unfolding warn_step_def by blast
  then show ?thesis
  proof cases
    case 1
    then have "\<forall>r. bind_exn (f r) g = Inl e" by (simp add: bind_exn_def)
    then show ?thesis unfolding warn_step_def by blast
  next
    case f: 2
    from assms(2) consider e where "\<forall>r. g r = Inl e"
      | vs where "\<forall>r. g r = Inr (r\<lparr>warnings := warnings r @ vs\<rparr>)"
      unfolding warn_step_def by blast
    then show ?thesis
    proof cases
      case 1
      with f have "\<forall>r. bind_exn (f r) g = Inl e" by (simp add: bind_exn_def)
      then show ?thesis unfolding warn_step_def by blast
    next
      case 2
      with f have "\<forall>r. bind_exn (f r) g = Inr (r\<lparr>warnings := warnings r @ (ws @ vs)\<rparr>)"
        by (simp add: bind_exn_def)
      then show ?thesis unfolding warn_step_def by blast
    qed
  qed
qed

lemma warn_step_pure:
  assumes "\<And>r. f r = r\<lparr>warnings := warnings r @ ws\<rparr>"
  shows "warn_step (\<lambda>r. Inr (f r))"
  unfolding warn_step_def using assms by auto

lemma warn_step_id: "warn_step Inr"
proof -
  have "\<forall>r::validation_result. Inr r = (Inr (r\<lparr>warnings := warnings r @ []\<rparr>) :: exn + validation_result)"
    by simp
  then have "\<exists>ws. \<forall>r::validation_result. Inr r = (Inr (r\<lparr>warnings := warnings r @ ws\<rparr>) :: exn + validation_result)"
    by (rule exI)
  then show ?thesis unfolding warn_step_def by (rule disjI2)
qed

lemma warn_step_raise: "warn_step (\<lambda>r. Inl e)"
  unfolding warn_step_def by blast

lemma warn_step_add_warning: "warn_step (\<lambda>r. Inr (add_warning r m))"
proof -
  have "\<forall>r. (Inr (add_warning r m) :: exn + validation_result) = Inr (r\<lparr>warnings := warnings r @ [m]\<rparr>)"
    by (simp add: add_warning_def)
  then show ?thesis unfolding warn_step_def by blast
qed

lemma warn_step_if:
  assumes "warn_step f" and "warn_step g"
  shows "warn_step (\<lambda>r. if c then f r else g r)"
  using assms by (cases c) simp_all

lemma sections_fold_appends:
  "\<exists>ws. \<forall>r. fold (\<lambda>(keyword, description) r.
              if \<not> sublist keyword low then
                add_warning r (lit ''Missing recommended section: '' @ description)
              else r) secs r = r\<lparr>warnings := warnings r @ ws\<rparr>"
proof (induction secs)
  case Nil
  show ?case by (rule exI [of _ "[]"]) simp
next
  case (Cons s secs)
  then obtain ws where ws: "\<forall>r. fold (\<lambda>(keyword, description) r.
              if \<not> sublist keyword low then
                add_warning r (lit ''Missing recommended section: '' @ description)
              else r) secs r = r\<lparr>warnings := warnings r @ ws\<rparr>" by blast
  obtain k d where s: "s = (k, d)" by (cases s)
  show ?case
  proof (cases "sublist k low")
    case True
    with ws s show ?thesis by (intro exI [of _ ws]) simp
  next
    case False
    with ws s show ?thesis
      by (intro exI [of _ "(lit ''Missing recommended section: '' @ d) # ws"])
         (simp add: add_warning_def)
  qed
qed

lemma warn_step_check_sections: "warn_step (\<lambda>r. Inr (check_sections env body r))"
proof -
  obtain ws where "\<forall>r. check_sections env body r = r\<lparr>warnings := warnings r @ ws\<rparr>"
    unfolding check_sections_def Let_def using sections_fold_appends by blast
  then show ?thesis unfolding warn_step_def by auto
qed

lemma warn_step_check_tools: "warn_step (\<lambda>r. Inr (check_tools fm r))"
proof -
  let ?w = "\<lambda>tools. filter (\<lambda>t. t \<noteq> [] \<and> t \<notin> set valid_tools) (map strip (split_on 44 tools))"
  show ?thesis
  proof (cases "\<exists>tools. map_of fm (YStr (lit ''tools'')) = Some (YStr tools) \<and> ?w tools \<noteq> []")
    case True
    then obtain tools where "map_of fm (YStr (lit ''tools'')) = Some (YStr tools)" "?w tools \<noteq> []"
      by blast
    then have "(\<lambda>r. Inr (check_tools fm r) :: exn + validation_result)
        = (\<lambda>r. Inr (add_warning r (lit ''Unknown tools specified: '' @ join (lit '', '') (?w tools))))"
      by (intro ext) (simp add: check_tools_def Let_def)
    then show ?thesis using warn_step_add_warning by simp
  next
    case False
    then have "(\<lambda>r. Inr (check_tools fm r) :: exn + validation_result) = Inr"
      by (intro ext) (auto simp: check_tools_def Let_def split: option.splits yaml.splits)
    then show ?thesis using warn_step_id by simp
  qed
qed

lemma warn_step_check_model: "warn_step (check_model env fm)"
proof (cases "map_of fm (YStr (lit ''model''))")
  case None
  then have "check_model env fm = Inr" by (intro ext) (simp add: check_model_def)
  then show ?thesis using warn_step_id by simp
next
  case (Some model)
  show ?thesis
  proof (cases "py_hashable model")
    case False
    with Some have "check_model env fm = (\<lambda>r. Inl TypeError)"
      by (intro ext) (simp add: check_model_def)
    then show ?thesis using warn_step_raise by simp
  next
    case True
    show ?thesis
    proof (cases "model \<in> set (map YStr valid_models)")
      case True
      with Some \<open>py_hashable model\<close> have "check_model env fm = Inr"
        by (intro ext) (simp add: check_model_def)
      then show ?thesis using warn_step_id by simp
    next
      case False
      with Some \<open>py_hashable model\<close> have "check_model env fm = (\<lambda>r. Inr (add_warning r
                   (lit ''Unknown model '' @ [39] @ py_str env model @ [39]
                      @ lit ''. Valid options: '' @ join (lit '', '') (sort valid_models))))"
        by (intro ext) (simp add: check_model_def)
      then show ?thesis using warn_step_add_warning by simp
    qed
  qed
qed

lemma warn_step_check_executable: "warn_step (check_executable env scripts)"
proof (induction scripts)
  case Nil
  have "check_executable env [] = Inr" by (rule ext) simp
  then show ?case using warn_step_id by simp
next
  case (Cons script rest)
  show ?case
  proof (cases "os_st_mode env script")
    case None
    then have "check_executable env (script # rest) = (\<lambda>r. Inl OSError)" by (intro ext) simp
    then show ?thesis using warn_step_raise by simp
  next
    case (Some mode)
    show ?thesis
    proof (cases "and mode 73 = 0")
      case True
      with Some have "check_executable env (script # rest)
        = (\<lambda>r. bind_exn (Inr (add_warning r
                 (lit ''Script '' @ path_name script @ lit '' is not executable. ''
                    @ lit ''Consider: chmod +x '' @ path_str script)))
               (check_executable env rest))"
        by (intro ext) (simp add: bind_exn_def)
      then show ?thesis
        using warn_step_bind [OF warn_step_add_warning Cons.IH] by simp
    next
      case False
      with Some have "check_executable env (script # rest) = check_executable env rest"
        by (intro ext) simp
      then show ?thesis using Cons.IH by simp
    qed
  qed
qed

lemma warn_step_check_scripts_dir: "warn_step (check_scripts_dir env d)"
proof (cases "os_exists env d")
  case None
  then have "check_scripts_dir env d = (\<lambda>r. Inl OSError)"
    by (intro ext) (simp add: check_scripts_dir_def os_query_def bind_exn_def)
  then show ?thesis using warn_step_raise by simp
next
  case (Some scripts_exists)
  let ?files = "os_glob env d (lit ''*.py'')"
  let ?msg = "lit ''scripts/ directory contains Python files but no '' @ lit ''__init__.py''"
  show ?thesis
  proof (cases "scripts_exists \<and> ?files \<noteq> []")
    case False
    with Some have "check_scripts_dir env d = Inr"
      by (intro ext) (auto simp: check_scripts_dir_def os_query_def bind_exn_def Let_def)
    then show ?thesis using warn_step_id by simp
  next
    case True
    show ?thesis
    proof (cases "os_exists env (d @ [lit ''__init__.py''])")
      case None
      with Some True have "check_scripts_dir env d = (\<lambda>r. Inl OSError)"
        by (intro ext) (simp add: check_scripts_dir_def os_query_def bind_exn_def Let_def)
      then show ?thesis using warn_step_raise by simp
    next
      case init: (Some init_exists)
      consider (a) "init_exists" "sys_platform env \<noteq> lit ''win32''"
        | (b) "init_exists" "sys_platform env = lit ''win32''"
        | (c) "\<not> init_exists" "sys_platform env \<noteq> lit ''win32''"
        | (d) "\<not> init_exists" "sys_platform env = lit ''win32''"
        by blast
      then show ?thesis
      proof cases
        case a
        with Some True init have "check_scripts_dir env d = check_executable env ?files"
          by (intro ext) (simp add: check_scripts_dir_def os_query_def bind_exn_def Let_def)
        then show ?thesis using warn_step_check_executable by simp
      next
        case b
        with Some True init have "check_scripts_dir env d = Inr"
          by (intro ext) (simp add: check_scripts_dir_def os_query_def bind_exn_def Let_def)
        then show ?thesis using warn_step_id by simp
      next
        case c
        with Some True init have "check_scripts_dir env d
            = (\<lambda>r. bind_exn (Inr (add_warning r ?msg)) (check_executable env ?files))"
          by (intro ext) (simp add: check_scripts_dir_def os_query_def bind_exn_def Let_def)
        then show ?thesis
          using warn_step_bind [OF warn_step_add_warning warn_step_check_executable] by simp
      next
        case d
        with Some True init have "check_scripts_dir env d = (\<lambda>r. Inr (add_warning r ?msg))"
          by (intro ext) (simp add: check_scripts_dir_def os_query_def bind_exn_def Let_def)
        then show ?thesis using warn_step_add_warning by simp
      qed
    qed
  qed
qed

lemma warn_step_check_references_dir: "warn_step (check_references_dir env d)"
proof (cases "os_exists env d")
  case None
  then have "check_references_dir env d = (\<lambda>r. Inl OSError)"
    by (intro ext) (simp add: check_references_dir_def os_query_def bind_exn_def)
  then show ?thesis using warn_step_raise by simp
next
  case (Some references_exists)
  show ?thesis
  proof (cases "references_exists \<and> os_glob env d (lit ''*.md'') = []")
    case True
    with Some have "check_references_dir env d
        = (\<lambda>r. Inr (add_warning r
                (lit ''references/ directory exists but contains no .md files'')))"
      by (intro ext) (simp add: check_references_dir_def os_query_def bind_exn_def Let_def)
    then show ?thesis using warn_step_add_warning by simp
  next
    case False
    with Some have "check_references_dir env d = Inr"
      by (intro ext) (auto simp: check_references_dir_def os_query_def bind_exn_def Let_def)
    then show ?thesis using warn_step_id by simp
  qed
qed

lemma warn_step_check_directories: "warn_step (check_directories env f)"
proof -
  have "check_directories env f
     = (\<lambda>r. bind_exn (check_scripts_dir env (path_parent f @ [lit ''scripts'']) r)
              (check_references_dir env (path_parent f @ [lit ''references''])))"
    by (intro ext) (simp add: check_directories_def Let_def)
  then show ?thesis
    using warn_step_bind [OF warn_step_check_scripts_dir warn_step_check_references_dir] by simp
qed

lemma check_name_keeps_warnings:
  "check_name fm r = Inr r' \<Longrightarrow> warnings r' = warnings r"
  by (auto simp: check_name_def add_error_def split: option.splits sum.splits if_splits)

lemma check_description_keeps_warnings:
  "check_description fm r = Inr r' \<Longrightarrow> warnings r' = warnings r"
  by (auto simp: check_description_def add_error_def split: option.splits sum.splits if_splits)

lemma check_unexpected_cases:
  "(unexpected_fields fm \<noteq> [] \<and> str_keys (unexpected_fields fm) = None
      \<and> (\<forall>strict r. check_unexpected strict fm r = Inl TypeError))
   \<or> (\<exists>u. (if unexpected_fields fm = [] then u = []
             else \<exists>names. str_keys (unexpected_fields fm) = Some names
                    \<and> u = [lit ''Unexpected frontmatter fields: ''
                             @ join (lit '', '') (sort names)])
          \<and> (\<forall>r. check_unexpected True fm r = Inr (r\<lparr>errors := errors r @ u\<rparr>)
                 \<and> check_unexpected False fm r = Inr (r\<lparr>warnings := warnings r @ u\<rparr>)))"
proof (cases "unexpected_fields fm = []")
  case True
  then have "(if unexpected_fields fm = [] then ([]::pystr list) = []
             else \<exists>names. str_keys (unexpected_fields fm) = Some names
                    \<and> ([]::pystr list) = [lit ''Unexpected frontmatter fields: ''
                             @ join (lit '', '') (sort names)])
     \<and> (\<forall>r. check_unexpected True fm r = Inr (r\<lparr>errors := errors r @ []\<rparr>)
                 \<and> check_unexpected False fm r = Inr (r\<lparr>warnings := warnings r @ []\<rparr>))"
    by (simp add: check_unexpected_def)
  then show ?thesis by blast
next
  case False
  show ?thesis
  proof (cases "str_keys (unexpected_fields fm)")
    case None
    with False have "\<forall>strict r. check_unexpected strict fm r = Inl TypeError"
      by (simp add: check_unexpected_def)
    with False None show ?thesis by blast
  next
    case (Some names)
    let ?u = "[lit ''Unexpected frontmatter fields: '' @ join (lit '', '') (sort names)]"
    from False Some
    have "(if unexpected_fields fm = [] then ?u = []
             else \<exists>names'. str_keys (unexpected_fields fm) = Some names'
                    \<and> ?u = [lit ''Unexpected frontmatter fields: ''
                             @ join (lit '', '') (sort names')])
      \<and> (\<forall>r. check_unexpected True fm r = Inr (r\<lparr>errors := errors r @ ?u\<rparr>)
                 \<and> check_unexpected False fm r = Inr (r\<lparr>warnings := warnings r @ ?u\<rparr>))"
      by (simp add: check_unexpected_def add_error_def add_warning_def)
    then show ?thesis by blast
  qed
qed

lemma check_body_cases:
  "\<exists>b w. (if body = [] then b = [lit ''SKILL.md body is empty (no content after frontmatter)'']
            else b = [])
        \<and> (b = [] \<or> w = [])
        \<and> (\<forall>r. check_body True body r = r\<lparr>errors := errors r @ b, warnings := warnings r @ w\<rparr>
               \<and> check_body False body r = r\<lparr>warnings := warnings r @ b @ w\<rparr>)"
proof (cases "body = []")
  case True
  show ?thesis
    by (rule exI [of _ "[lit ''SKILL.md body is empty (no content after frontmatter)'']"],
        rule exI [of _ "[]"])
       (simp add: True check_body_def add_error_def add_warning_def)
next
  case False
  show ?thesis
  proof (cases "length body < 100")
    case True
    show ?thesis
      by (rule exI [of _ "[]"],
          rule exI [of _ "[lit ''SKILL.md body is very short ('' @ str_nat (length body)
             @ lit '' chars). '' @ lit ''Consider adding more detailed instructions.'']"])
         (simp add: True False check_body_def add_warning_def)
  next
    case long: False
    show ?thesis
      by (rule exI [of _ "[]"], rule exI [of _ "[]"])
         (simp add: long False check_body_def)
  qed
qed

lemma warn_step_tail:
  "warn_step (\<lambda>result.
     bind_exn (Inr (check_sections env body result)) (\<lambda>result.
     bind_exn (Inr (check_tools fm result)) (\<lambda>result.
     bind_exn (check_model env fm result) (\<lambda>result.
     check_directories env f result))))"
proof -
  have 1: "warn_step (\<lambda>r. bind_exn (check_model env fm r) (check_directories env f))"
    by (rule warn_step_bind [OF warn_step_check_model warn_step_check_directories])
  have 2: "warn_step (\<lambda>r. bind_exn (Inr (check_tools fm r))
             (\<lambda>r. bind_exn (check_model env fm r) (check_directories env f)))"
    by (rule warn_step_bind [OF warn_step_check_tools 1])
  show ?thesis
    by (rule warn_step_bind [OF warn_step_check_sections 2])
qed

lemma validate_parsed_unfold:
  "validate_parsed env f fm body strict r0 =
     bind_exn (check_name fm r0) (\<lambda>r1.
     bind_exn (check_description fm r1) (\<lambda>r2.
     bind_exn (check_unexpected strict fm r2) (\<lambda>r3.
       (\<lambda>result.
         bind_exn (Inr (check_sections env body result)) (\<lambda>result.
         bind_exn (Inr (check_tools fm result)) (\<lambda>result.
         bind_exn (check_model env fm result) (\<lambda>result.
         check_directories env f result)))) (check_body strict body r3))))"
  by (simp add: validate_parsed_def bind_exn_def)

text \<open>
  The two runs on a parsed skill: the same exception, or two results that differ by the
  messages \<open>u\<close> (unexpected fields) and \<open>b\<close> (empty body), which are determined by the
  header and the body.
\<close>

lemma validate_parsed_strict:
  assumes w0: "warnings r0 = []"
  shows "(\<exists>e. \<forall>strict. validate_parsed env f fm body strict r0 = Inl e)
   \<or> (\<exists>rn rs u b. validate_parsed env f fm body False r0 = Inr rn
         \<and> validate_parsed env f fm body True r0 = Inr rs
         \<and> (if unexpected_fields fm = [] then u = []
              else \<exists>names. str_keys (unexpected_fields fm) = Some names
                     \<and> u = [lit ''Unexpected frontmatter fields: ''
                              @ join (lit '', '') (sort names)])
         \<and> (if body = [] then b = [lit ''SKILL.md body is empty (no content after frontmatter)'']
              else b = [])
         \<and> errors rs = errors rn @ u @ b
         \<and> warnings rn = u @ b @ warnings rs)"
proof -
  let ?tail = "\<lambda>result.
     bind_exn (Inr (check_sections env body result)) (\<lambda>result.
     bind_exn (Inr (check_tools fm result)) (\<lambda>result.
     bind_exn (check_model env fm result) (\<lambda>result.
     check_directories env f result)))"
  note vp = validate_parsed_unfold [of env f fm body]
  show ?thesis
  proof (cases "check_name fm r0")
    case (Inl e)
    then have "\<forall>strict. validate_parsed env f fm body strict r0 = Inl e"
      by (simp add: vp bind_exn_def)
    then show ?thesis by blast
  next
    case r1: (Inr r1)
    show ?thesis
    proof (cases "check_description fm r1")
      case (Inl e)
      with r1 have "\<forall>strict. validate_parsed env f fm body strict r0 = Inl e"
        by (simp add: vp bind_exn_def)
      then show ?thesis by blast
    next
      case r2: (Inr r2)
      from check_name_keeps_warnings [OF r1] check_description_keeps_warnings [OF r2] w0
      have w2: "warnings r2 = []" by simp
      from check_unexpected_cases [of fm]
      consider "\<forall>strict r. check_unexpected strict fm r = Inl TypeError"
        | u where "if unexpected_fields fm = [] then u = []
             else \<exists>names. str_keys (unexpected_fields fm) = Some names
                    \<and> u = [lit ''Unexpected frontmatter fields: ''
                             @ join (lit '', '') (sort names)]"
          and "\<forall>r. check_unexpected True fm r = Inr (r\<lparr>errors := errors r @ u\<rparr>)
                 \<and> check_unexpected False fm r = Inr (r\<lparr>warnings := warnings r @ u\<rparr>)"
        by blast
      then show ?thesis
      proof cases
        case 1
        with r1 r2 have "\<forall>strict. validate_parsed env f fm body strict r0 = Inl TypeError"
          by (simp add: vp bind_exn_def)
        then show ?thesis by blast
      next
        case u: 2
        from check_body_cases [of body] obtain b w
          where b: "if body = []
                    then b = [lit ''SKILL.md body is empty (no content after frontmatter)'']
                    else b = []"
            and bw: "b = [] \<or> w = []"
            and cb: "\<forall>r. check_body True body r
                        = r\<lparr>errors := errors r @ b, warnings := warnings r @ w\<rparr>
               \<and> check_body False body r = r\<lparr>warnings := warnings r @ b @ w\<rparr>"
          by blast
        let ?s4 = "r2\<lparr>errors := errors r2 @ u @ b, warnings := w\<rparr>"
        let ?n4 = "r2\<lparr>warnings := u @ b @ w\<rparr>"
        from r1 r2 u(2) cb w2 have vs: "validate_parsed env f fm body True r0 = ?tail ?s4"
          by (simp add: vp bind_exn_def)
        from r1 r2 u(2) cb w2 have vn: "validate_parsed env f fm body False r0 = ?tail ?n4"
          by (simp add: vp bind_exn_def)
        from warn_step_tail [of env body fm f]
        consider e where "\<forall>r. ?tail r = Inl e"
          | ws where "\<forall>r. ?tail r = Inr (r\<lparr>warnings := warnings r @ ws\<rparr>)"
          unfolding warn_step_def by blast
        then show ?thesis
        proof cases
          case 1
          with vs vn have "\<forall>strict. validate_parsed env f fm body strict r0 = Inl e"
            by (metis (full_types))
          then show ?thesis by blast
        next
          case 2
          from 2 vs have s: "validate_parsed env f fm body True r0
                = Inr (?s4\<lparr>warnings := warnings ?s4 @ ws\<rparr>)" by simp
          from 2 vn have n: "validate_parsed env f fm body False r0
                = Inr (?n4\<lparr>warnings := warnings ?n4 @ ws\<rparr>)" by simp
          have e: "errors (?s4\<lparr>warnings := warnings ?s4 @ ws\<rparr>)
                   = errors (?n4\<lparr>warnings := warnings ?n4 @ ws\<rparr>) @ u @ b" by simp
          have w: "warnings (?n4\<lparr>warnings := warnings ?n4 @ ws\<rparr>)
                   = u @ b @ warnings (?s4\<lparr>warnings := warnings ?s4 @ ws\<rparr>)" by simp
          from s n e w u(1) b show ?thesis by blast
        qed
      qed
    qed
  qed
qed

text \<open>
  The failures that end a run early with a result (file not found, not a file, too
  large, not UTF-8, not readable, not parsable) give exactly one error and no warning,
  whatever the strictness.
\<close>

lemma validate_skill_early_return:
  assumes "find_skill_file env p = Inr None
     \<or> (\<exists>f e. find_skill_file env p = Inr (Some f)
            \<and> read_file_safe env f default_max_size = Inl e \<and> is_SkillError e)
     \<or> (\<exists>f content e. find_skill_file env p = Inr (Some f)
            \<and> read_file_safe env f default_max_size = Inr content
            \<and> parse_skill_file (yaml_load env) content = Inl e \<and> is_SkillError e)"
  shows "\<exists>msg. \<forall>strict. validate_skill env p strict = Inr \<lparr>errors = [msg], warnings = []\<rparr>"
proof -
  from assms consider "find_skill_file env p = Inr None"
    | f e where "find_skill_file env p = Inr (Some f)"
        "read_file_safe env f default_max_size = Inl e" "is_SkillError e"
    | f content e where "find_skill_file env p = Inr (Some f)"
        "read_file_safe env f default_max_size = Inr content"
        "parse_skill_file (yaml_load env) content = Inl e" "is_SkillError e"
    by blast
  then show ?thesis
  proof cases
    case 1
    then have "\<forall>strict. validate_skill env p strict
        = Inr \<lparr>errors = [lit ''SKILL.md not found in '' @ format_path p], warnings = []\<rparr>"
      by (simp add: validate_skill_def ValidationResult_def add_error_def)
    then show ?thesis by blast
  next
    case 2
    then have "\<forall>strict. validate_skill env p strict
        = Inr \<lparr>errors = [exn_str e], warnings = []\<rparr>"
      by (simp add: validate_skill_def ValidationResult_def add_error_def)
    then show ?thesis by blast
  next
    case 3
    then have "\<forall>strict. validate_skill env p strict
        = Inr \<lparr>errors = [exn_str e], warnings = []\<rparr>"
      by (simp add: validate_skill_def ValidationResult_def add_error_def)
    then show ?thesis by blast
  qed
qed

text \<open>When a check of the tail reports nothing.\<close>

lemma check_sections_quiet:
  assumes "\<forall>(keyword, description) \<in> set recommended_sections.
             sublist keyword (str_lower env body)"
  shows "check_sections env body r = r"
  using assms by (simp add: check_sections_def recommended_sections_def)

lemma check_tools_quiet:
  assumes "\<forall>tools. map_of fm (YStr (lit ''tools'')) = Some (YStr tools) \<longrightarrow>
             (\<forall>t \<in> set (map strip (split_on 44 tools)). t = [] \<or> t \<in> set valid_tools)"
  shows "check_tools fm r = r"
  using assms
  by (auto simp: check_tools_def Let_def filter_empty_conv split: option.splits yaml.splits)

lemma check_model_quiet:
  assumes "\<forall>model. map_of fm (YStr (lit ''model'')) = Some model \<longrightarrow>
             model \<in> set (map YStr valid_models)"
  shows "check_model env fm r = Inr r"
  using assms by (auto simp: check_model_def split: option.splits)

lemma check_executable_quiet:
  assumes "\<forall>script \<in> set scripts. \<exists>mode. os_st_mode env script = Some mode \<and> and mode 73 \<noteq> 0"
  shows "check_executable env scripts r = Inr r"
  using assms by (induction scripts) auto

lemma check_directories_quiet:
  assumes "os_exists env (path_parent f @ [lit ''scripts'']) = Some scripts_exists"
    and "scripts_exists \<and> os_glob env (path_parent f @ [lit ''scripts'']) (lit ''*.py'') \<noteq> []
         \<longrightarrow> os_exists env (path_parent f @ [lit ''scripts''] @ [lit ''__init__.py'']) = Some True
            \<and> (sys_platform env \<noteq> lit ''win32'' \<longrightarrow>
                 (\<forall>script \<in> set (os_glob env (path_parent f @ [lit ''scripts'']) (lit ''*.py'')).
                    \<exists>mode. os_st_mode env script = Some mode \<and> and mode 73 \<noteq> 0))"
    and "os_exists env (path_parent f @ [lit ''references'']) = Some references_exists"
    and "references_exists
         \<longrightarrow> os_glob env (path_parent f @ [lit ''references'']) (lit ''*.md'') \<noteq> []"
  shows "check_directories env f r = Inr r"
  using assms
  by (auto simp: check_directories_def check_scripts_dir_def check_references_dir_def
        Let_def os_query_def bind_exn_def check_executable_quiet)

section \<open>The example skills, evaluated\<close>

text \<open>
  The runs of the engine on the example skills, computed stage by stage: finding and
  reading the file, parsing it, and each block of checks.
\<close>

lemmas ex_simps = example_env_def demo_tree_def demo_dir_def resolve_def follow_def
  node_is_file_def node_text_def node_size_def lit_def is_root_def

lemma demo_find:
  "find_skill_file (example_env (demo_tree h b @ extra) l) demo_dir
     = Inr (Some (demo_dir @ [lit ''SKILL.md'']))"
  by (simp add: find_skill_file_def os_query_def bind_exn_def ex_simps path_name_def)

lemma demo_read:
  assumes "length (skill_md h b) \<le> default_max_size"
  shows "read_file_safe (example_env (demo_tree h b @ extra) l) (demo_dir @ [lit ''SKILL.md''])
           default_max_size = Inr (skill_md h b)"
  using assms by (simp add: read_file_safe_def os_query_def bind_exn_def ex_simps)

lemma demo_parent: "path_parent (demo_dir @ [lit ''SKILL.md'']) = demo_dir"
  by (simp add: path_parent_def ex_simps)

lemma demo_no_dirs:
  "check_directories (example_env (demo_tree h b) l) (demo_dir @ [lit ''SKILL.md'']) r = Inr r"
  by (simp add: check_directories_def check_scripts_dir_def check_references_dir_def
        os_query_def bind_exn_def path_parent_def ex_simps)

lemma author_parse:
  "parse_skill_file (one_header author_header author_fm) (skill_md author_header body)
     = Inr (author_fm, strip body)"
proof -
  have m: "re_match_frontmatter (skill_md author_header body) = Some (author_header, body)"
    by (simp add: re_match_frontmatter_def skill_md_def author_header_def lit_def)
  have s: "strip (skill_md author_header body) \<noteq> []"
    by (simp add: strip_def skill_md_def lit_def is_space_def)
  have p: "prefix (lit ''---'') (skill_md author_header body)"
    by (simp add: skill_md_def lit_def)
  from m s p show ?thesis
    by (simp add: parse_skill_file_def one_header_def)
qed

lemma demo_name_ok: "validate_skill_name (lit ''demo-skill'') = (True, [])"
  by (simp add: validate_skill_name_def lit_def re_match_name_def name_char_def sublist_code)

lemma demo_description_ok: "validate_skill_description (lit ''Does a thing.'') = (True, [])"
  by (simp add: validate_skill_description_def lit_def strip_def is_space_def
        match_xml_tag_at_def)

lemma strip_good_body: "strip good_body = good_body"
  by (simp add: strip_def good_body_def lit_def is_space_def)

lemma length_good_body: "length good_body = 114"
  by (simp add: good_body_def lit_def)

lemma good_body_sections:
  "check_sections (example_env t l) good_body r = r"
  by (simp add: check_sections_def recommended_sections_def example_env_def ascii_lower_def
        good_body_def lit_def sublist_code)

lemma empty_body_sections:
  "check_sections (example_env t l) [] r =
     r\<lparr>warnings := warnings r @
          [lit ''Missing recommended section: when to use this skill'',
           lit ''Missing recommended section: step-by-step instructions'',
           lit ''Missing recommended section: concrete examples'']\<rparr>"
  by (simp add: check_sections_def recommended_sections_def example_env_def ascii_lower_def
        add_warning_def lit_def)

lemma author_checks:
  "check_name author_fm r = Inr r"
  "check_description author_fm r = Inr r"
  "check_unexpected strict author_fm r =
     Inr (if strict then add_error r (lit ''Unexpected frontmatter fields: author'')
          else add_warning r (lit ''Unexpected frontmatter fields: author''))"
  "check_tools author_fm r = r"
  "check_model env author_fm r = Inr r"
  using demo_name_ok demo_description_ok
  by (simp_all add: check_name_def check_description_def check_unexpected_def check_tools_def
        check_model_def author_fm_def validate_skill_name_value_def
        validate_skill_description_value_def unexpected_fields_def expected_fields_def lit_def)

lemma author_empty_run:
  "validate_skill env_author_empty demo_dir strict =
     Inr (if strict then
            \<lparr>errors = [lit ''Unexpected frontmatter fields: author'',
                       lit ''SKILL.md body is empty (no content after frontmatter)''],
             warnings = [lit ''Missing recommended section: when to use this skill'',
                         lit ''Missing recommended section: step-by-step instructions'',
                         lit ''Missing recommended section: concrete examples'']\<rparr>
          else
            \<lparr>errors = [],
             warnings = [lit ''Unexpected frontmatter fields: author'',
                         lit ''SKILL.md body is empty (no content after frontmatter)'',
                         lit ''Missing recommended section: when to use this skill'',
                         lit ''Missing recommended section: step-by-step instructions'',
                         lit ''Missing recommended section: concrete examples'']\<rparr>)"
proof -
  have len: "length (skill_md author_header []) \<le> default_max_size"
    by (simp add: skill_md_def author_header_def lit_def default_max_size_def)
  have y: "yaml_load (example_env (demo_tree author_header []) (one_header author_header author_fm))
             = one_header author_header author_fm"
    by (simp add: example_env_def)
  have s: "strip [] = ([]::pystr)" by (simp add: strip_def)
  show ?thesis
    unfolding env_author_empty_def validate_skill_def Let_def
    using demo_find [of author_header "[]" "[]"] demo_read [OF len, of "[]"]
      author_parse [of "[]"] demo_no_dirs [of author_header "[]"]
    by (simp add: y s validate_parsed_def bind_exn_def author_checks check_body_def
          empty_body_sections ValidationResult_def add_error_def add_warning_def)
qed

lemma author_run:
  "validate_skill env_author demo_dir strict =
     Inr (if strict then
            \<lparr>errors = [lit ''Unexpected frontmatter fields: author''], warnings = []\<rparr>
          else
            \<lparr>errors = [], warnings = [lit ''Unexpected frontmatter fields: author'']\<rparr>)"
proof -
  have len: "length (skill_md author_header good_body) \<le> default_max_size"
    by (simp add: skill_md_def author_header_def good_body_def lit_def default_max_size_def)
  have y: "yaml_load (example_env (demo_tree author_header good_body)
             (one_header author_header author_fm)) = one_header author_header author_fm"
    by (simp add: example_env_def)
  have b: "good_body \<noteq> []" "\<not> length good_body < 100"
    using length_good_body by auto
  show ?thesis
    unfolding env_author_def validate_skill_def Let_def
    using demo_find [of author_header good_body "[]"] demo_read [OF len, of "[]"]
      author_parse [of good_body] demo_no_dirs [of author_header good_body]
    by (simp add: y b strip_good_body validate_parsed_def bind_exn_def author_checks
          check_body_def good_body_sections ValidationResult_def add_error_def add_warning_def)
qed

lemma noname_parse:
  "parse_skill_file (one_header noname_header noname_fm) (skill_md noname_header body)
     = Inr (noname_fm, strip body)"
proof -
  have m: "re_match_frontmatter (skill_md noname_header body) = Some (noname_header, body)"
    by (simp add: re_match_frontmatter_def skill_md_def noname_header_def lit_def)
  have s: "strip (skill_md noname_header body) \<noteq> []"
    by (simp add: strip_def skill_md_def lit_def is_space_def)
  have p: "prefix (lit ''---'') (skill_md noname_header body)"
    by (simp add: skill_md_def lit_def)
  from m s p show ?thesis
    by (simp add: parse_skill_file_def one_header_def)
qed

lemma noname_checks:
  "check_name noname_fm r =
     Inr (add_error r (lit ''Required field \"name\" missing from frontmatter''))"
  "check_description noname_fm r = Inr r"
  "check_unexpected strict noname_fm r = Inr r"
  "check_tools noname_fm r = r"
  "check_model env noname_fm r = Inr r"
  using demo_description_ok
  by (simp_all add: check_name_def check_description_def check_unexpected_def check_tools_def
        check_model_def noname_fm_def
        validate_skill_description_value_def unexpected_fields_def expected_fields_def lit_def)

lemma noname_run:
  "validate_skill env_noname demo_dir strict =
     Inr \<lparr>errors = [lit ''Required field \"name\" missing from frontmatter''], warnings = []\<rparr>"
proof -
  have len: "length (skill_md noname_header good_body) \<le> default_max_size"
    by (simp add: skill_md_def noname_header_def good_body_def lit_def default_max_size_def)
  have y: "yaml_load (example_env (demo_tree noname_header good_body)
             (one_header noname_header noname_fm)) = one_header noname_header noname_fm"
    by (simp add: example_env_def)
  have b: "good_body \<noteq> []" "\<not> length good_body < 100"
    using length_good_body by auto
  show ?thesis
    unfolding env_noname_def validate_skill_def Let_def
    using demo_find [of noname_header good_body "[]"] demo_read [OF len, of "[]"]
      noname_parse [of good_body] demo_no_dirs [of noname_header good_body]
    by (simp add: y b strip_good_body validate_parsed_def bind_exn_def noname_checks
          check_body_def good_body_sections ValidationResult_def add_error_def)
qed

lemma intname_parse:
  "parse_skill_file (one_header intname_header intname_fm) (skill_md intname_header body)
     = Inr (intname_fm, strip body)"
proof -
  have m: "re_match_frontmatter (skill_md intname_header body) = Some (intname_header, body)"
    by (simp add: re_match_frontmatter_def skill_md_def intname_header_def lit_def)
  have s: "strip (skill_md intname_header body) \<noteq> []"
    by (simp add: strip_def skill_md_def lit_def is_space_def)
  have p: "prefix (lit ''---'') (skill_md intname_header body)"
    by (simp add: skill_md_def lit_def)
  from m s p show ?thesis
    by (simp add: parse_skill_file_def one_header_def)
qed

lemma intname_check_name: "check_name intname_fm r = Inl TypeError"
  by (simp add: check_name_def intname_fm_def validate_skill_name_value_def)

lemma author_manifest:
  "\<exists>m. create_manifest env_author demo_dir author_fm = Inr m"
  by (simp add: create_manifest_def Let_def os_query_def bind_exn_def includes_dir_def
        env_author_def ex_simps)

lemma plain_parse:
  "parse_skill_file (one_header plain_header plain_fm) (skill_md plain_header body)
     = Inr (plain_fm, strip body)"
proof -
  have m: "re_match_frontmatter (skill_md plain_header body) = Some (plain_header, body)"
    by (simp add: re_match_frontmatter_def skill_md_def plain_header_def lit_def)
  have s: "strip (skill_md plain_header body) \<noteq> []"
    by (simp add: strip_def skill_md_def lit_def is_space_def)
  have p: "prefix (lit ''---'') (skill_md plain_header body)"
    by (simp add: skill_md_def lit_def)
  from m s p show ?thesis
    by (simp add: parse_skill_file_def one_header_def)
qed

lemma plain_checks:
  "check_name plain_fm r = Inr r"
  "check_description plain_fm r = Inr r"
  "check_unexpected strict plain_fm r = Inr r"
  "check_tools plain_fm r = r"
  "check_model env plain_fm r = Inr r"
  using demo_name_ok demo_description_ok
  by (simp_all add: check_name_def check_description_def check_unexpected_def check_tools_def
        check_model_def plain_fm_def validate_skill_name_value_def
        validate_skill_description_value_def unexpected_fields_def expected_fields_def lit_def)

lemma symlink_dirs:
  "check_directories env_symlink (demo_dir @ [lit ''SKILL.md'']) r = Inr r"
  by (simp add: check_directories_def check_scripts_dir_def check_references_dir_def
        os_query_def bind_exn_def path_parent_def env_symlink_def ex_simps Let_def
        suffix_to_prefix)

lemma symlink_run:
  "validate_skill env_symlink demo_dir False = Inr \<lparr>errors = [], warnings = []\<rparr>"
proof -
  have len: "length (skill_md plain_header good_body) \<le> default_max_size"
    by (simp add: skill_md_def plain_header_def good_body_def lit_def default_max_size_def)
  have y: "yaml_load env_symlink = one_header plain_header plain_fm"
    by (simp add: env_symlink_def example_env_def)
  have b: "good_body \<noteq> []" "\<not> length good_body < 100"
    using length_good_body by auto
  have f: "find_skill_file env_symlink demo_dir = Inr (Some (demo_dir @ [lit ''SKILL.md'']))"
    unfolding env_symlink_def by (rule demo_find)
  have r: "read_file_safe env_symlink (demo_dir @ [lit ''SKILL.md'']) default_max_size
             = Inr (skill_md plain_header good_body)"
    unfolding env_symlink_def by (rule demo_read [OF len])
  have g: "check_sections env_symlink good_body r = r" for r
    unfolding env_symlink_def by (rule good_body_sections)
  show ?thesis
    unfolding validate_skill_def Let_def
    using plain_parse [of good_body]
    by (simp add: f r y b strip_good_body validate_parsed_def bind_exn_def plain_checks
          check_body_def g symlink_dirs ValidationResult_def)
qed

lemma symlink_collect:
  "collect_files env_symlink demo_dir
     = Inr [demo_dir @ [lit ''SKILL.md''], demo_dir @ [lit ''scripts'', lit ''leak'']]"
  by (simp add: collect_files_def collect_dir_def Let_def os_query_def bind_exn_def
        env_symlink_def ex_simps)

lemma symlink_manifest:
  "create_manifest env_symlink demo_dir plain_fm =
     Inr [(lit ''name'', YStr (lit ''demo-skill'')),
          (lit ''description'', YStr (lit ''Does a thing.'')),
          (lit ''version'', YStr (lit ''1.0.0'')),
          (lit ''packaged_at'', YStr (lit ''2024-01-01T00:00:00Z'')),
          (lit ''format'', YStr (lit ''claude-skill'')),
          (lit ''format_version'', YStr (lit ''1.0'')),
          (lit ''includes_scripts'', YBool True),
          (lit ''includes_references'', YBool False)]"
  by (simp add: create_manifest_def Let_def os_query_def bind_exn_def includes_dir_def
        dict_get_def plain_fm_def env_symlink_def ex_simps)

section \<open>Claims about the validation engine\<close>

text \<open>
  Claim C3. The strict and the non-strict run of the engine end alike with an exception
  or both return a result, and then the two results hold the same messages: the strict
  errors are the non-strict errors followed by the messages \<open>u\<close> and \<open>b\<close>, and the
  non-strict warnings are \<open>u\<close> and \<open>b\<close> followed by the strict warnings. For a skill
  that was found, read and parsed, \<open>u\<close> is the unexpected-fields message exactly when
  the header has a field outside the recognised set, and \<open>b\<close> is the empty-body message
  exactly when the body is empty: under strict mode these two messages, and no other,
  move from the warnings to the errors. Where no header was parsed, nothing moves.
\<close>

theorem strict_mode_moves_two_messages:
  "(\<forall>e. validate_skill env p True = Inl e \<longleftrightarrow> validate_skill env p False = Inl e)
   \<and> (\<forall>rn. validate_skill env p False = Inr rn \<longrightarrow>
        (\<exists>rs u b. validate_skill env p True = Inr rs
           \<and> errors rs = errors rn @ u @ b
           \<and> warnings rn = u @ b @ warnings rs
           \<and> errors rs @ warnings rs = errors rn @ warnings rn
           \<and> (\<forall>f content fm body.
                 find_skill_file env p = Inr (Some f)
                 \<and> read_file_safe env f default_max_size = Inr content
                 \<and> parse_skill_file (yaml_load env) content = Inr (fm, body)
                 \<longrightarrow> (if unexpected_fields fm = [] then u = []
                      else \<exists>names. str_keys (unexpected_fields fm) = Some names
                             \<and> u = [lit ''Unexpected frontmatter fields: ''
                                      @ join (lit '', '') (sort names)])
                   \<and> (if body = []
                      then b = [lit ''SKILL.md body is empty (no content after frontmatter)'']
                      else b = []))
           \<and> ((\<nexists>f content fm body.
                  find_skill_file env p = Inr (Some f)
                  \<and> read_file_safe env f default_max_size = Inr content
                  \<and> parse_skill_file (yaml_load env) content = Inr (fm, body))
                \<longrightarrow> u = [] \<and> b = [])))"
proof (cases "\<exists>f content fm body.
                  find_skill_file env p = Inr (Some f)
                  \<and> read_file_safe env f default_max_size = Inr content
                  \<and> parse_skill_file (yaml_load env) content = Inr (fm, body)")
  case True
  then obtain f content fm body
    where found: "find_skill_file env p = Inr (Some f)"
      and read: "read_file_safe env f default_max_size = Inr content"
      and parsed: "parse_skill_file (yaml_load env) content = Inr (fm, body)"
    by blast
  have vs: "validate_skill env p strict = validate_parsed env f fm body strict ValidationResult"
    for strict
    using found read parsed by (simp add: validate_skill_def)
  have w0: "warnings ValidationResult = []" by (simp add: ValidationResult_def)
  from validate_parsed_strict [OF w0, of env f fm body]
  consider (raises) e where "\<forall>strict. validate_parsed env f fm body strict ValidationResult = Inl e"
    | (returns) rn rs u b where
        "validate_parsed env f fm body False ValidationResult = Inr rn"
        "validate_parsed env f fm body True ValidationResult = Inr rs"
        "if unexpected_fields fm = [] then u = []
         else \<exists>names. str_keys (unexpected_fields fm) = Some names
                \<and> u = [lit ''Unexpected frontmatter fields: '' @ join (lit '', '') (sort names)]"
        "if body = [] then b = [lit ''SKILL.md body is empty (no content after frontmatter)'']
         else b = []"
        "errors rs = errors rn @ u @ b" "warnings rn = u @ b @ warnings rs"
    by blast
  then show ?thesis
  proof cases
    case raises
    then show ?thesis by (simp add: vs)
  next
    case returns
    have same: "errors rs @ warnings rs = errors rn @ warnings rn"
      using returns(5,6) by simp
    have moved: "(if unexpected_fields fm' = [] then u = []
                      else \<exists>names. str_keys (unexpected_fields fm') = Some names
                             \<and> u = [lit ''Unexpected frontmatter fields: ''
                                      @ join (lit '', '') (sort names)])
                   \<and> (if body' = []
                      then b = [lit ''SKILL.md body is empty (no content after frontmatter)'']
                      else b = [])"
      if "find_skill_file env p = Inr (Some f')
          \<and> read_file_safe env f' default_max_size = Inr content'
          \<and> parse_skill_file (yaml_load env) content' = Inr (fm', body')"
      for f' content' fm' body'
    proof -
      from that found have "f' = f" by simp
      with that read have "content' = content" by simp
      with that parsed have "fm' = fm" "body' = body" by simp_all
      with returns(3,4) show ?thesis by simp
    qed
    have "\<exists>rs u b. validate_skill env p True = Inr rs
           \<and> errors rs = errors rn @ u @ b
           \<and> warnings rn = u @ b @ warnings rs
           \<and> errors rs @ warnings rs = errors rn @ warnings rn
           \<and> (\<forall>f content fm body.
                 find_skill_file env p = Inr (Some f)
                 \<and> read_file_safe env f default_max_size = Inr content
                 \<and> parse_skill_file (yaml_load env) content = Inr (fm, body)
                 \<longrightarrow> (if unexpected_fields fm = [] then u = []
                      else \<exists>names. str_keys (unexpected_fields fm) = Some names
                             \<and> u = [lit ''Unexpected frontmatter fields: ''
                                      @ join (lit '', '') (sort names)])
                   \<and> (if body = []
                      then b = [lit ''SKILL.md body is empty (no content after frontmatter)'']
                      else b = []))
           \<and> ((\<nexists>f content fm body.
                  find_skill_file env p = Inr (Some f)
                  \<and> read_file_safe env f default_max_size = Inr content
                  \<and> parse_skill_file (yaml_load env) content = Inr (fm, body))
                \<longrightarrow> u = [] \<and> b = [])"
    proof (rule exI [of _ rs], rule exI [of _ u], rule exI [of _ b], intro conjI)
      show "validate_skill env p True = Inr rs" using returns(2) by (simp add: vs)
      show "errors rs = errors rn @ u @ b" by (rule returns(5))
      show "warnings rn = u @ b @ warnings rs" by (rule returns(6))
      show "errors rs @ warnings rs = errors rn @ warnings rn" by (rule same)
      show "\<forall>f content fm body.
                 find_skill_file env p = Inr (Some f)
                 \<and> read_file_safe env f default_max_size = Inr content
                 \<and> parse_skill_file (yaml_load env) content = Inr (fm, body)
                 \<longrightarrow> (if unexpected_fields fm = [] then u = []
                      else \<exists>names. str_keys (unexpected_fields fm) = Some names
                             \<and> u = [lit ''Unexpected frontmatter fields: ''
                                      @ join (lit '', '') (sort names)])
                   \<and> (if body = []
                      then b = [lit ''SKILL.md body is empty (no content after frontmatter)'']
                      else b = [])"
        using moved by blast
      show "(\<nexists>f content fm body.
                  find_skill_file env p = Inr (Some f)
                  \<and> read_file_safe env f default_max_size = Inr content
                  \<and> parse_skill_file (yaml_load env) content = Inr (fm, body))
                \<longrightarrow> u = [] \<and> b = []"
        using True by blast
    qed
    note ex = this
    have t: "validate_skill env p True = Inr rs" and nn: "validate_skill env p False = Inr rn"
      using returns(1,2) by (simp_all add: vs)
    show ?thesis
    proof (intro conjI allI impI)
      fix e
      show "validate_skill env p True = Inl e \<longleftrightarrow> validate_skill env p False = Inl e"
        using t nn by simp
    next
      fix rn'
      assume "validate_skill env p False = Inr rn'"
      with nn have "rn' = rn" by simp
      then show "\<exists>rs u b. validate_skill env p True = Inr rs
           \<and> errors rs = errors rn' @ u @ b
           \<and> warnings rn' = u @ b @ warnings rs
           \<and> errors rs @ warnings rs = errors rn' @ warnings rn'
           \<and> (\<forall>f content fm body.
                 find_skill_file env p = Inr (Some f)
                 \<and> read_file_safe env f default_max_size = Inr content
                 \<and> parse_skill_file (yaml_load env) content = Inr (fm, body)
                 \<longrightarrow> (if unexpected_fields fm = [] then u = []
                      else \<exists>names. str_keys (unexpected_fields fm) = Some names
                             \<and> u = [lit ''Unexpected frontmatter fields: ''
                                      @ join (lit '', '') (sort names)])
                   \<and> (if body = []
                      then b = [lit ''SKILL.md body is empty (no content after frontmatter)'']
                      else b = []))
           \<and> ((\<nexists>f content fm body.
                  find_skill_file env p = Inr (Some f)
                  \<and> read_file_safe env f default_max_size = Inr content
                  \<and> parse_skill_file (yaml_load env) content = Inr (fm, body))
                \<longrightarrow> u = [] \<and> b = [])"
        using ex by (simp only:)
    qed
  qed
next
  case False
  have eq: "validate_skill env p True = validate_skill env p False"
  proof (cases "find_skill_file env p")
    case (Inl e)
    then show ?thesis by (simp add: validate_skill_def)
  next
    case (Inr found)
    show ?thesis
    proof (cases found)
      case None
      with Inr show ?thesis by (simp add: validate_skill_def)
    next
      case (Some f)
      show ?thesis
      proof (cases "read_file_safe env f default_max_size")
        case (Inl e)
        with Inr Some show ?thesis by (simp add: validate_skill_def)
      next
        case content: (Inr content)
        show ?thesis
        proof (cases "parse_skill_file (yaml_load env) content")
          case (Inl e)
          with Inr Some content show ?thesis by (simp add: validate_skill_def)
        next
          case parsed: (Inr fb)
          obtain fm body where "fb = (fm, body)" by (cases fb)
          with Inr Some content parsed False show ?thesis by blast
        qed
      qed
    qed
  qed
  have "\<exists>rs u b. validate_skill env p True = Inr rs
           \<and> errors rs = errors rn @ u @ b
           \<and> warnings rn = u @ b @ warnings rs
           \<and> errors rs @ warnings rs = errors rn @ warnings rn
           \<and> (\<forall>f content fm body.
                 find_skill_file env p = Inr (Some f)
                 \<and> read_file_safe env f default_max_size = Inr content
                 \<and> parse_skill_file (yaml_load env) content = Inr (fm, body)
                 \<longrightarrow> (if unexpected_fields fm = [] then u = []
                      else \<exists>names. str_keys (unexpected_fields fm) = Some names
                             \<and> u = [lit ''Unexpected frontmatter fields: ''
                                      @ join (lit '', '') (sort names)])
                   \<and> (if body = []
                      then b = [lit ''SKILL.md body is empty (no content after frontmatter)'']
                      else b = []))
           \<and> ((\<nexists>f content fm body.
                  find_skill_file env p = Inr (Some f)
                  \<and> read_file_safe env f default_max_size = Inr content
                  \<and> parse_skill_file (yaml_load env) content = Inr (fm, body))
                \<longrightarrow> u = [] \<and> b = [])"
    if "validate_skill env p False = Inr rn" for rn
  proof (rule exI [of _ rn], rule exI [of _ "[]"], rule exI [of _ "[]"], intro conjI)
    show "validate_skill env p True = Inr rn" using that eq by simp
    show "errors rn = errors rn @ [] @ []" by simp
    show "warnings rn = [] @ [] @ warnings rn" by simp
    show "errors rn @ warnings rn = errors rn @ warnings rn" by simp
    show "\<forall>f content fm body.
                 find_skill_file env p = Inr (Some f)
                 \<and> read_file_safe env f default_max_size = Inr content
                 \<and> parse_skill_file (yaml_load env) content = Inr (fm, body)
                 \<longrightarrow> (if unexpected_fields fm = [] then ([]::pystr list) = []
                      else \<exists>names. str_keys (unexpected_fields fm) = Some names
                             \<and> ([]::pystr list) = [lit ''Unexpected frontmatter fields: ''
                                      @ join (lit '', '') (sort names)])
                   \<and> (if body = []
                      then ([]::pystr list)
                             = [lit ''SKILL.md body is empty (no content after frontmatter)'']
                      else ([]::pystr list) = [])"
      using False by blast
    show "(\<nexists>f content fm body.
                  find_skill_file env p = Inr (Some f)
                  \<and> read_file_safe env f default_max_size = Inr content
                  \<and> parse_skill_file (yaml_load env) content = Inr (fm, body))
                \<longrightarrow> ([]::pystr list) = [] \<and> ([]::pystr list) = []"
      by simp
  qed
  note ex = this
  show ?thesis
  proof (intro conjI allI impI)
    fix e
    show "validate_skill env p True = Inl e \<longleftrightarrow> validate_skill env p False = Inl e"
      using eq by simp
  next
    fix rn
    assume "validate_skill env p False = Inr rn"
    then show "\<exists>rs u b. validate_skill env p True = Inr rs
           \<and> errors rs = errors rn @ u @ b
           \<and> warnings rn = u @ b @ warnings rs
           \<and> errors rs @ warnings rs = errors rn @ warnings rn
           \<and> (\<forall>f content fm body.
                 find_skill_file env p = Inr (Some f)
                 \<and> read_file_safe env f default_max_size = Inr content
                 \<and> parse_skill_file (yaml_load env) content = Inr (fm, body)
                 \<longrightarrow> (if unexpected_fields fm = [] then u = []
                      else \<exists>names. str_keys (unexpected_fields fm) = Some names
                             \<and> u = [lit ''Unexpected frontmatter fields: ''
                                      @ join (lit '', '') (sort names)])
                   \<and> (if body = []
                      then b = [lit ''SKILL.md body is empty (no content after frontmatter)'']
                      else b = []))
           \<and> ((\<nexists>f content fm body.
                  find_skill_file env p = Inr (Some f)
                  \<and> read_file_safe env f default_max_size = Inr content
                  \<and> parse_skill_file (yaml_load env) content = Inr (fm, body))
                \<longrightarrow> u = [] \<and> b = [])"
      by (rule ex)
  qed
qed

text \<open>
  The example skill with the field \<^verbatim>\<open>author\<close> and an empty body: both messages move,
  and the strict result follows from the non-strict one.
\<close>

theorem strict_mode_moves_two_messages_witness:
  "validate_skill env_author_empty demo_dir False =
     Inr \<lparr>errors = [],
          warnings = [lit ''Unexpected frontmatter fields: author'',
                      lit ''SKILL.md body is empty (no content after frontmatter)'',
                      lit ''Missing recommended section: when to use this skill'',
                      lit ''Missing recommended section: step-by-step instructions'',
                      lit ''Missing recommended section: concrete examples'']\<rparr>
   \<and> validate_skill env_author_empty demo_dir True =
     Inr \<lparr>errors = [lit ''Unexpected frontmatter fields: author'',
                    lit ''SKILL.md body is empty (no content after frontmatter)''],
          warnings = [lit ''Missing recommended section: when to use this skill'',
                      lit ''Missing recommended section: step-by-step instructions'',
                      lit ''Missing recommended section: concrete examples'']\<rparr>"
proof -
  let ?U = "lit ''Unexpected frontmatter fields: author''"
  let ?B = "lit ''SKILL.md body is empty (no content after frontmatter)''"
  let ?S = "[lit ''Missing recommended section: when to use this skill'',
             lit ''Missing recommended section: step-by-step instructions'',
             lit ''Missing recommended section: concrete examples'']"
  let ?f = "demo_dir @ [lit ''SKILL.md'']"
  have n: "validate_skill env_author_empty demo_dir False
             = Inr \<lparr>errors = [], warnings = ?U # ?B # ?S\<rparr>"
    by (simp add: author_empty_run)
  have len: "length (skill_md author_header []) \<le> default_max_size"
    by (simp add: skill_md_def author_header_def lit_def default_max_size_def)
  have h1: "find_skill_file env_author_empty demo_dir = Inr (Some ?f)"
    unfolding env_author_empty_def using demo_find [of author_header "[]" "[]"] by simp
  have h2: "read_file_safe env_author_empty ?f default_max_size
              = Inr (skill_md author_header [])"
    unfolding env_author_empty_def using demo_read [OF len, of "[]"] by simp
  have h3: "parse_skill_file (yaml_load env_author_empty) (skill_md author_header [])
              = Inr (author_fm, [])"
    using author_parse [of "[]"]
    by (simp add: env_author_empty_def example_env_def strip_def)
  have k: "unexpected_fields author_fm \<noteq> []"
    "str_keys (unexpected_fields author_fm) = Some [lit ''author'']"
    by (simp_all add: unexpected_fields_def expected_fields_def author_fm_def lit_def)
  from strict_mode_moves_two_messages [of env_author_empty demo_dir] n
  obtain rs u b where s: "validate_skill env_author_empty demo_dir True = Inr rs"
    and e: "errors rs = errors \<lparr>errors = [], warnings = ?U # ?B # ?S\<rparr> @ u @ b"
    and w: "warnings \<lparr>errors = [], warnings = ?U # ?B # ?S\<rparr> = u @ b @ warnings rs"
    and m: "\<forall>f content fm body.
                 find_skill_file env_author_empty demo_dir = Inr (Some f)
                 \<and> read_file_safe env_author_empty f default_max_size = Inr content
                 \<and> parse_skill_file (yaml_load env_author_empty) content = Inr (fm, body)
                 \<longrightarrow> (if unexpected_fields fm = [] then u = []
                      else \<exists>names. str_keys (unexpected_fields fm) = Some names
                             \<and> u = [lit ''Unexpected frontmatter fields: ''
                                      @ join (lit '', '') (sort names)])
                   \<and> (if body = []
                      then b = [lit ''SKILL.md body is empty (no content after frontmatter)'']
                      else b = [])"
    by blast
  from m h1 h2 h3 have "(if unexpected_fields author_fm = [] then u = []
                      else \<exists>names. str_keys (unexpected_fields author_fm) = Some names
                             \<and> u = [lit ''Unexpected frontmatter fields: ''
                                      @ join (lit '', '') (sort names)])
                   \<and> b = [?B]"
    by fastforce
  with k have ub: "u = [?U]" "b = [?B]"
    by (simp_all add: lit_def)
  from e w ub have "errors rs = [?U, ?B]" "warnings rs = ?S" by simp_all
  then have "rs = \<lparr>errors = [?U, ?B], warnings = ?S\<rparr>" by (cases rs) simp
  with n s show ?thesis by simp
qed

text \<open>
  Claim C8 as stated fails: a skill whose only problem is that the recognised field
  \<^verbatim>\<open>name\<close> is missing gets an error, not a warning, so its non-strict result is
  invalid and has no warning (and the strict result is the same).
\<close>

theorem missing_name_counterexample:
  "map_of noname_fm (YStr (lit ''name'')) = None
   \<and> validate_skill env_noname demo_dir False =
       Inr \<lparr>errors = [lit ''Required field \"name\" missing from frontmatter''], warnings = []\<rparr>
   \<and> \<not> is_valid \<lparr>errors = [lit ''Required field \"name\" missing from frontmatter''],
                    warnings = []\<rparr>
   \<and> \<not> has_warnings \<lparr>errors = [lit ''Required field \"name\" missing from frontmatter''],
                        warnings = []\<rparr>
   \<and> validate_skill env_noname demo_dir True = validate_skill env_noname demo_dir False"
  by (simp add: noname_run is_valid_def has_warnings_def noname_fm_def lit_def)

text \<open>
  Claim C8, as amended. Take a skill whose only problem is a header field outside the
  recognised set: it is found, read and parsed; its name and its description are valid
  strings; the names of its unrecognised fields are strings; its body has at least 100
  characters and mentions the three recommended sections; the tools it lists, if any,
  are known; its model, if any, is a known one; its \<^verbatim>\<open>scripts\<close> directory, if there is
  one, has no Python file, or has \<^verbatim>\<open>__init__.py\<close> and (off Windows) only executable
  ones; its \<^verbatim>\<open>references\<close> directory, if there is one, has a Markdown file. Then the
  non-strict run returns a valid result whose only warning is the unexpected-fields
  message, and the strict run returns an invalid result whose only error is that same
  text.
\<close>

theorem unexpected_field_only:
  assumes found: "find_skill_file env p = Inr (Some f)"
    and read: "read_file_safe env f default_max_size = Inr content"
    and parsed: "parse_skill_file (yaml_load env) content = Inr (fm, body)"
    and name: "map_of fm (YStr (lit ''name'')) = Some (YStr name)"
      "validate_skill_name name = (True, [])"
    and description: "map_of fm (YStr (lit ''description'')) = Some (YStr description)"
      "validate_skill_description description = (True, [])"
    and unexpected: "unexpected_fields fm \<noteq> []"
      "str_keys (unexpected_fields fm) = Some names"
    and body: "100 \<le> length body"
    and sections: "\<forall>(keyword, description) \<in> set recommended_sections.
                     sublist keyword (str_lower env body)"
    and tools: "\<forall>tools. map_of fm (YStr (lit ''tools'')) = Some (YStr tools) \<longrightarrow>
                  (\<forall>t \<in> set (map strip (split_on 44 tools)). t = [] \<or> t \<in> set valid_tools)"
    and model: "\<forall>model. map_of fm (YStr (lit ''model'')) = Some model \<longrightarrow>
                  model \<in> set (map YStr valid_models)"
    and scripts: "os_exists env (path_parent f @ [lit ''scripts'']) = Some scripts_exists"
      "scripts_exists \<and> os_glob env (path_parent f @ [lit ''scripts'']) (lit ''*.py'') \<noteq> []
       \<longrightarrow> os_exists env (path_parent f @ [lit ''scripts''] @ [lit ''__init__.py'']) = Some True
          \<and> (sys_platform env \<noteq> lit ''win32'' \<longrightarrow>
               (\<forall>script \<in> set (os_glob env (path_parent f @ [lit ''scripts'']) (lit ''*.py'')).
                  \<exists>mode. os_st_mode env script = Some mode \<and> and mode 73 \<noteq> 0))"
    and references: "os_exists env (path_parent f @ [lit ''references'']) = Some references_exists"
      "references_exists
       \<longrightarrow> os_glob env (path_parent f @ [lit ''references'']) (lit ''*.md'') \<noteq> []"
  shows "validate_skill env p False
           = Inr \<lparr>errors = [],
                  warnings = [lit ''Unexpected frontmatter fields: ''
                                @ join (lit '', '') (sort names)]\<rparr>
         \<and> is_valid \<lparr>errors = [],
                  warnings = [lit ''Unexpected frontmatter fields: ''
                                @ join (lit '', '') (sort names)]\<rparr>
         \<and> has_warnings \<lparr>errors = [],
                  warnings = [lit ''Unexpected frontmatter fields: ''
                                @ join (lit '', '') (sort names)]\<rparr>
         \<and> validate_skill env p True
           = Inr \<lparr>errors = [lit ''Unexpected frontmatter fields: ''
                                @ join (lit '', '') (sort names)],
                  warnings = []\<rparr>
         \<and> \<not> is_valid \<lparr>errors = [lit ''Unexpected frontmatter fields: ''
                                @ join (lit '', '') (sort names)],
                  warnings = []\<rparr>"
proof -
  let ?msg = "lit ''Unexpected frontmatter fields: '' @ join (lit '', '') (sort names)"
  have vs: "validate_skill env p strict = validate_parsed env f fm body strict ValidationResult"
    for strict
    using found read parsed by (simp add: validate_skill_def)
  have n: "check_name fm r = Inr r" for r
    using name by (simp add: check_name_def validate_skill_name_value_def)
  have d: "check_description fm r = Inr r" for r
    using description by (simp add: check_description_def validate_skill_description_value_def)
  have cu: "check_unexpected strict fm r
              = Inr (if strict then add_error r ?msg else add_warning r ?msg)" for strict r
    using unexpected by (simp add: check_unexpected_def)
  have cb: "check_body strict body r = r" for strict r
    using body by (auto simp: check_body_def)
  have cs: "check_sections env body r = r" for r
    using sections by (rule check_sections_quiet)
  have ct: "check_tools fm r = r" for r
    using tools by (rule check_tools_quiet)
  have cm: "check_model env fm r = Inr r" for r
    using model by (rule check_model_quiet)
  have cd: "check_directories env f r = Inr r" for r
    using scripts references by (rule check_directories_quiet)
  have "validate_parsed env f fm body False ValidationResult
          = Inr \<lparr>errors = [], warnings = [?msg]\<rparr>"
    by (simp add: validate_parsed_def bind_exn_def n d cu cb cs ct cm cd add_warning_def
          ValidationResult_def)
  moreover have "validate_parsed env f fm body True ValidationResult
          = Inr \<lparr>errors = [?msg], warnings = []\<rparr>"
    by (simp add: validate_parsed_def bind_exn_def n d cu cb cs ct cm cd add_error_def
          ValidationResult_def)
  ultimately show ?thesis
    by (simp add: vs is_valid_def has_warnings_def)
qed

text \<open>
  The example skill with the field \<^verbatim>\<open>author\<close> and nothing else to report: it lists no
  tools and no model, and has neither a \<^verbatim>\<open>scripts\<close> nor a \<^verbatim>\<open>references\<close> directory.
\<close>

theorem unexpected_field_only_witness:
  "validate_skill env_author demo_dir False
     = Inr \<lparr>errors = [], warnings = [lit ''Unexpected frontmatter fields: author'']\<rparr>
   \<and> validate_skill env_author demo_dir True
     = Inr \<lparr>errors = [lit ''Unexpected frontmatter fields: author''], warnings = []\<rparr>"
proof -
  let ?f = "demo_dir @ [lit ''SKILL.md'']"
  have len: "length (skill_md author_header good_body) \<le> default_max_size"
    by (simp add: skill_md_def author_header_def good_body_def lit_def default_max_size_def)
  have h1: "find_skill_file env_author demo_dir = Inr (Some ?f)"
    unfolding env_author_def using demo_find [of author_header good_body "[]"] by simp
  have h2: "read_file_safe env_author ?f default_max_size
              = Inr (skill_md author_header good_body)"
    unfolding env_author_def using demo_read [OF len, of "[]"] by simp
  have h3: "parse_skill_file (yaml_load env_author) (skill_md author_header good_body)
              = Inr (author_fm, good_body)"
    using author_parse [of good_body] by (simp add: env_author_def example_env_def strip_good_body)
  have h4: "map_of author_fm (YStr (lit ''name'')) = Some (YStr (lit ''demo-skill''))"
    by (simp add: author_fm_def)
  have h5: "map_of author_fm (YStr (lit ''description'')) = Some (YStr (lit ''Does a thing.''))"
    by (simp add: author_fm_def lit_def)
  have h6: "unexpected_fields author_fm \<noteq> []"
    and h7: "str_keys (unexpected_fields author_fm) = Some [lit ''author'']"
    by (simp_all add: unexpected_fields_def expected_fields_def author_fm_def lit_def)
  have h8: "100 \<le> length good_body" using length_good_body by simp
  have h9: "\<forall>(keyword, description) \<in> set recommended_sections.
              sublist keyword (str_lower env_author good_body)"
    by (simp add: recommended_sections_def env_author_def example_env_def ascii_lower_def
          good_body_def lit_def sublist_code)
  have h10: "\<forall>tools. map_of author_fm (YStr (lit ''tools'')) = Some (YStr tools) \<longrightarrow>
               (\<forall>t \<in> set (map strip (split_on 44 tools)). t = [] \<or> t \<in> set valid_tools)"
    by (simp add: author_fm_def lit_def)
  have h11: "\<forall>model. map_of author_fm (YStr (lit ''model'')) = Some model \<longrightarrow>
               model \<in> set (map YStr valid_models)"
    by (simp add: author_fm_def lit_def)
  have h12: "os_exists env_author (path_parent ?f @ [lit ''scripts'']) = Some False"
    and h13: "os_exists env_author (path_parent ?f @ [lit ''references'']) = Some False"
    by (simp_all add: env_author_def path_parent_def ex_simps)
  have j: "lit ''Unexpected frontmatter fields: '' @ join (lit '', '') (sort [lit ''author''])
             = lit ''Unexpected frontmatter fields: author''"
    by (simp add: lit_def)
  from unexpected_field_only [OF h1 h2 h3 h4 demo_name_ok h5 demo_description_ok h6 h7 h8
         h9 h10 h11 h12 _ h13]
  show ?thesis by (simp only: j) simp
qed

text \<open>
  Claim C2 fails on the code. A header whose \<^verbatim>\<open>name\<close> is the integer 123 is ordinary
  invalid input, and the run does not return a result: \<^verbatim>\<open>len(name)\<close> raises
  \<^verbatim>\<open>TypeError\<close> inside \<^verbatim>\<open>validate_skill_name\<close>, which no handler of
  \<^verbatim>\<open>validate_skill\<close> catches.
\<close>

theorem validate_skill_raises_on_integer_name:
  "validate_skill env_intname demo_dir False = Inl TypeError
   \<and> validate_skill env_intname demo_dir True = Inl TypeError"
proof -
  have len: "length (skill_md intname_header good_body) \<le> default_max_size"
    by (simp add: skill_md_def intname_header_def good_body_def lit_def default_max_size_def)
  have y: "yaml_load (example_env (demo_tree intname_header good_body)
             (one_header intname_header intname_fm)) = one_header intname_header intname_fm"
    by (simp add: example_env_def)
  have "validate_skill env_intname demo_dir strict = Inl TypeError" for strict
    unfolding env_intname_def validate_skill_def Let_def
    using demo_find [of intname_header good_body "[]"] demo_read [OF len, of "[]"]
      intname_parse [of good_body]
    by (simp add: y validate_parsed_def bind_exn_def intname_check_name)
  then show ?thesis by simp
qed

section \<open>Properties of the collector and the packager\<close>

text \<open>
  \<open>safe_path\<close> returns only paths whose resolved form lies at or below the resolved
  base. Nothing in package\_skill.py or validate\_skill.py calls it.
\<close>

lemma safe_path_within_base:
  assumes "safe_path env base user_input = Inr p"
  shows "p = os_resolve env (joinpath base user_input) \<and> prefix (os_resolve env base) p"
  using assms
  by (auto simp: safe_path_def relative_to_def Let_def split: option.splits if_splits)

text \<open>The example of the docstring: a parent-directory segment that leaves the base.\<close>

lemma safe_path_rejects_parent_escape:
  "safe_path env_symlink demo_dir (lit ''../etc/passwd'')
     = Inl (ValueError (lit ''Path traversal detected: ../etc/passwd''))"
  by (simp add: safe_path_def joinpath_def split_path_def relative_to_def env_symlink_def
        example_env_def demo_tree_def demo_dir_def resolve_def follow_def lit_def is_root_def)

text \<open>
  What the collector returns, in the order of the source; its loop keeps the entries
  for which \<^verbatim>\<open>is_file()\<close> is true.
\<close>

lemma collect_regular_filter:
  assumes "\<forall>file \<in> set files. os_is_file env file \<noteq> None"
  shows "collect_regular env files
           = Inr (filter (\<lambda>file. os_is_file env file = Some True) files)"
  using assms
  by (induction files) (auto simp: os_query_def bind_exn_def)

lemma collect_dir_shape:
  assumes "os_exists env d = Some dir_exists"
    and "dir_exists \<longrightarrow> os_is_dir env d = Some dir_is_dir"
    and "\<forall>file \<in> set (os_rglob env d (lit ''*'')). os_is_file env file \<noteq> None"
  shows "collect_dir env d =
     Inr (if dir_exists \<and> dir_is_dir
          then filter (\<lambda>file. os_is_file env file = Some True) (os_rglob env d (lit ''*''))
          else [])"
  using assms
  by (simp add: collect_dir_def os_query_def bind_exn_def collect_regular_filter)

lemma collect_files_shape:
  assumes "os_exists env (skill_dir @ [lit ''SKILL.md'']) = Some True"
    and "collect_dir env (skill_dir @ [lit ''scripts'']) = Inr scripts_files"
    and "collect_dir env (skill_dir @ [lit ''references'']) = Inr references_files"
    and "os_exists env (skill_dir @ [lit ''README.md'']) = Some readme_exists"
  shows "collect_files env skill_dir =
     Inr ([skill_dir @ [lit ''SKILL.md'']] @ scripts_files @ references_files
          @ (if readme_exists then [skill_dir @ [lit ''README.md'']] else []))"
  using assms by (simp add: collect_files_def Let_def os_query_def bind_exn_def)

lemma collect_files_missing:
  assumes "os_exists env (skill_dir @ [lit ''SKILL.md'']) = Some False"
  shows "collect_files env skill_dir =
     Inl (SkillPackagingError (lit ''SKILL.md not found in '' @ path_str skill_dir))"
  using assms by (simp add: collect_files_def Let_def os_query_def bind_exn_def)

text \<open>
  Claim C4 fails on the code. The entries taken from \<^verbatim>\<open>scripts\<close> and \<^verbatim>\<open>references\<close> are
  filtered by \<^verbatim>\<open>is_file()\<close>, but \<^verbatim>\<open>README.md\<close> (and \<^verbatim>\<open>SKILL.md\<close>) is only tested with
  \<^verbatim>\<open>exists()\<close>: where \<^verbatim>\<open>README.md\<close> is a directory, the collector returns it.
\<close>

theorem collect_files_includes_directory:
  "collect_files env_readme_dir demo_dir
     = Inr [demo_dir @ [lit ''SKILL.md''], demo_dir @ [lit ''README.md'']]
   \<and> os_is_dir env_readme_dir (demo_dir @ [lit ''README.md'']) = Some True
   \<and> os_is_file env_readme_dir (demo_dir @ [lit ''README.md'']) = Some False"
  by (simp add: collect_files_def collect_dir_def Let_def os_query_def bind_exn_def
        env_readme_dir_def ex_simps)

text \<open>
  Claim C1 fails on the code. The collector and the packager never resolve a path nor
  check that it stays in the skill directory. With \<^verbatim>\<open>scripts/leak\<close> a symbolic link to
  \<^verbatim>\<open>/etc/passwd\<close>, the packager validates the skill, collects the link and adds it to
  the archive, although its resolved path is not below the resolved skill directory
  (\<^verbatim>\<open>relative_to\<close> of the two raises, which is the test of \<open>safe_path\<close>).
\<close>

theorem package_skill_reads_outside_skill_directory:
  "package_skill env_symlink demo_dir None (lit ''zip'') True True
     = ([ZipCreate [lit ''demo-skill.zip''],
         ZipWriteStr [lit ''demo-skill.zip''] (lit ''manifest.json'') (lit ''{}''),
         ZipWrite [lit ''demo-skill.zip''] (demo_dir @ [lit ''SKILL.md'']) [lit ''SKILL.md''],
         ZipWrite [lit ''demo-skill.zip''] (demo_dir @ [lit ''scripts'', lit ''leak''])
           [lit ''scripts'', lit ''leak'']],
        Inr [lit ''demo-skill.zip''])
   \<and> os_resolve env_symlink (demo_dir @ [lit ''scripts'', lit ''leak''])
       = [lit ''/'', lit ''etc'', lit ''passwd'']
   \<and> os_resolve env_symlink demo_dir = demo_dir
   \<and> relative_to (os_resolve env_symlink (demo_dir @ [lit ''scripts'', lit ''leak'']))
        (os_resolve env_symlink demo_dir) = None"
proof -
  have len: "length (skill_md plain_header good_body) \<le> default_max_size"
    by (simp add: skill_md_def plain_header_def good_body_def lit_def default_max_size_def)
  have f: "find_skill_file env_symlink demo_dir = Inr (Some (demo_dir @ [lit ''SKILL.md'']))"
    unfolding env_symlink_def by (rule demo_find)
  have v: "validate_first env_symlink demo_dir True = Inr ()"
    by (simp add: validate_first_def symlink_run is_valid_def)
  have r: "read_file_safe env_symlink (demo_dir @ [lit ''SKILL.md'']) default_max_size
             = Inr (skill_md plain_header good_body)"
    unfolding env_symlink_def by (rule demo_read [OF len])
  have p: "parse_skill_file (yaml_load env_symlink) (skill_md plain_header good_body)
             = Inr (plain_fm, good_body)"
    using plain_parse [of good_body]
    by (simp add: env_symlink_def example_env_def strip_good_body)
  have o: "output_location env_symlink
             (dict_get plain_fm (lit ''name'') (YStr (path_name demo_dir))) None (lit ''zip'')
           = Inr [lit ''demo-skill.zip'']"
    by (simp add: output_location_def dict_get_def plain_fm_def py_str_def split_path_def lit_def)
  have z: "package_as_zip env_symlink demo_dir [lit ''demo-skill.zip'']
             (Some [(lit ''name'', YStr (lit ''demo-skill'')),
          (lit ''description'', YStr (lit ''Does a thing.'')),
          (lit ''version'', YStr (lit ''1.0.0'')),
          (lit ''packaged_at'', YStr (lit ''2024-01-01T00:00:00Z'')),
          (lit ''format'', YStr (lit ''claude-skill'')),
          (lit ''format_version'', YStr (lit ''1.0'')),
          (lit ''includes_scripts'', YBool True),
          (lit ''includes_references'', YBool False)])
     = ([ZipCreate [lit ''demo-skill.zip''],
         ZipWriteStr [lit ''demo-skill.zip''] (lit ''manifest.json'') (lit ''{}''),
         ZipWrite [lit ''demo-skill.zip''] (demo_dir @ [lit ''SKILL.md'']) [lit ''SKILL.md''],
         ZipWrite [lit ''demo-skill.zip''] (demo_dir @ [lit ''scripts'', lit ''leak''])
           [lit ''scripts'', lit ''leak'']], Inr ())"
    by (simp add: package_as_zip_def symlink_collect zip_manifest_steps_def zip_file_steps_def
          relative_to_def)
       (simp add: env_symlink_def example_env_def)
  have pk: "package_skill env_symlink demo_dir None (lit ''zip'') True True
     = ([ZipCreate [lit ''demo-skill.zip''],
         ZipWriteStr [lit ''demo-skill.zip''] (lit ''manifest.json'') (lit ''{}''),
         ZipWrite [lit ''demo-skill.zip''] (demo_dir @ [lit ''SKILL.md'']) [lit ''SKILL.md''],
         ZipWrite [lit ''demo-skill.zip''] (demo_dir @ [lit ''scripts'', lit ''leak''])
           [lit ''scripts'', lit ''leak'']],
        Inr [lit ''demo-skill.zip''])"
    by (simp add: package_skill_def Let_def bind_exn_def f demo_parent v r p symlink_manifest o z)
  have rs: "os_resolve env_symlink (demo_dir @ [lit ''scripts'', lit ''leak''])
       = [lit ''/'', lit ''etc'', lit ''passwd'']"
    "os_resolve env_symlink demo_dir = demo_dir"
    by (simp_all add: env_symlink_def ex_simps)
  then have "relative_to (os_resolve env_symlink (demo_dir @ [lit ''scripts'', lit ''leak'']))
        (os_resolve env_symlink demo_dir) = None"
    by (simp add: relative_to_def demo_dir_def lit_def)
  with pk rs show ?thesis by blast
qed

text \<open>
  Claim C6, as amended. With a format other than \<^verbatim>\<open>zip\<close> and \<^verbatim>\<open>directory\<close> the packager
  writes nothing and fails; the failure is the unknown-format error whenever the steps
  before the dispatch succeed (the skill file is found, validation passes or is not
  asked for, the file is read and parsed, the manifest is built if asked for, the output
  location is derived). The format is tested last, so a failure of one of these steps is
  what the packager raises instead.
\<close>

theorem unknown_format_fails_without_writing:
  assumes "format \<noteq> lit ''zip''" and "format \<noteq> lit ''directory''"
  shows "fst (package_skill env p output format validate include_manifest) = []
    \<and> (\<exists>e. snd (package_skill env p output format validate include_manifest) = Inl e)
    \<and> (\<forall>f content fm body out.
          find_skill_file env p = Inr (Some f)
          \<and> validate_first env (path_parent f) validate = Inr ()
          \<and> read_file_safe env f default_max_size = Inr content
          \<and> parse_skill_file (yaml_load env) content = Inr (fm, body)
          \<and> (include_manifest \<longrightarrow> (\<exists>m. create_manifest env (path_parent f) fm = Inr m))
          \<and> output_location env (dict_get fm (lit ''name'') (YStr (path_name (path_parent f))))
               output format = Inr out
          \<longrightarrow> snd (package_skill env p output format validate include_manifest)
                = Inl (SkillPackagingError (lit ''Unknown format: '' @ format)))"
proof (intro conjI allI impI)
  show "fst (package_skill env p output format validate include_manifest) = []"
    using assms
    by (auto simp: package_skill_def Let_def split: option.splits sum.splits prod.splits)
  show "\<exists>e. snd (package_skill env p output format validate include_manifest) = Inl e"
    using assms
    by (auto simp: package_skill_def Let_def split: option.splits sum.splits prod.splits)
next
  fix f content fm body out
  assume h: "find_skill_file env p = Inr (Some f)
          \<and> validate_first env (path_parent f) validate = Inr ()
          \<and> read_file_safe env f default_max_size = Inr content
          \<and> parse_skill_file (yaml_load env) content = Inr (fm, body)
          \<and> (include_manifest \<longrightarrow> (\<exists>m. create_manifest env (path_parent f) fm = Inr m))
          \<and> output_location env (dict_get fm (lit ''name'') (YStr (path_name (path_parent f))))
               output format = Inr out"
  show "snd (package_skill env p output format validate include_manifest)
                = Inl (SkillPackagingError (lit ''Unknown format: '' @ format))"
  proof (cases include_manifest)
    case True
    with h obtain m where "create_manifest env (path_parent f) fm = Inr m" by blast
    with h True assms show ?thesis
      by (simp add: package_skill_def Let_def bind_exn_def)
  next
    case False
    with h assms show ?thesis
      by (simp add: package_skill_def Let_def bind_exn_def)
  qed
qed

text \<open>The example skill with the field \<^verbatim>\<open>author\<close>, packaged as \<^verbatim>\<open>tar\<close>.\<close>

theorem unknown_format_fails_without_writing_witness:
  "lit ''tar'' \<noteq> lit ''zip'' \<and> lit ''tar'' \<noteq> lit ''directory''
   \<and> package_skill env_author demo_dir None (lit ''tar'') True True
       = ([], Inl (SkillPackagingError (lit ''Unknown format: tar'')))"
proof -
  let ?f = "demo_dir @ [lit ''SKILL.md'']"
  have a: "lit ''tar'' \<noteq> lit ''zip''" and b: "lit ''tar'' \<noteq> lit ''directory''"
    by (simp_all add: lit_def)
  have len: "length (skill_md author_header good_body) \<le> default_max_size"
    by (simp add: skill_md_def author_header_def good_body_def lit_def default_max_size_def)
  have h1: "find_skill_file env_author demo_dir = Inr (Some ?f)"
    unfolding env_author_def using demo_find [of author_header good_body "[]"] by simp
  have h2: "validate_first env_author (path_parent ?f) True = Inr ()"
    by (simp add: validate_first_def demo_parent author_run is_valid_def)
  have h3: "read_file_safe env_author ?f default_max_size = Inr (skill_md author_header good_body)"
    unfolding env_author_def using demo_read [OF len, of "[]"] by simp
  have h4: "parse_skill_file (yaml_load env_author) (skill_md author_header good_body)
              = Inr (author_fm, good_body)"
    using author_parse [of good_body] by (simp add: env_author_def example_env_def strip_good_body)
  have h5: "True \<longrightarrow> (\<exists>m. create_manifest env_author (path_parent ?f) author_fm = Inr m)"
    using author_manifest by (simp add: demo_parent)
  have h6: "output_location env_author
              (dict_get author_fm (lit ''name'') (YStr (path_name (path_parent ?f))))
              None (lit ''tar'') = Inr [lit ''demo-skill'']"
    by (simp add: output_location_def dict_get_def author_fm_def split_path_def lit_def)
  from unknown_format_fails_without_writing [OF a b, of env_author demo_dir None True True]
    h1 h2 h3 h4 h5 h6
  have "fst (package_skill env_author demo_dir None (lit ''tar'') True True) = []"
    and "snd (package_skill env_author demo_dir None (lit ''tar'') True True)
           = Inl (SkillPackagingError (lit ''Unknown format: '' @ lit ''tar''))"
    by blast+
  then have "package_skill env_author demo_dir None (lit ''tar'') True True
       = ([], Inl (SkillPackagingError (lit ''Unknown format: tar'')))"
    by (simp add: prod_eq_iff lit_def)
  with a b show ?thesis by blast
qed

text \<open>
  Claim C6 as stated fails: with the format \<^verbatim>\<open>tar\<close>, a path that does not exist gives
  the not-found error, and a skill without \<^verbatim>\<open>name\<close> gives the validation error, both
  results of I/O done before the format is looked at.
\<close>

theorem unknown_format_counterexample:
  "lit ''tar'' \<noteq> lit ''zip'' \<and> lit ''tar'' \<noteq> lit ''directory''
   \<and> package_skill env_noname [lit ''missing''] None (lit ''tar'') True True
       = ([], Inl (SkillPackagingError (lit ''SKILL.md not found in missing'')))
   \<and> package_skill env_noname demo_dir None (lit ''tar'') True True
       = ([], Inl (SkillError (lit ''Skill validation failed:'' @ [10]
             @ [10060] @ lit '' Errors:'' @ [10]
             @ lit ''  - Required field \"name\" missing from frontmatter''
             @ [10, 10] @ lit ''Use --no-validate to skip validation'')))"
proof -
  have a: "lit ''tar'' \<noteq> lit ''zip'' \<and> lit ''tar'' \<noteq> lit ''directory''"
    by (simp add: lit_def)
  have "find_skill_file env_noname [lit ''missing''] = Inr None"
    by (simp add: find_skill_file_def os_query_def bind_exn_def env_noname_def ex_simps)
  then have b: "package_skill env_noname [lit ''missing''] None (lit ''tar'') True True
       = ([], Inl (SkillPackagingError (lit ''SKILL.md not found in missing'')))"
    by (simp add: package_skill_def format_path_def path_str_def is_root_def lit_def)
  have f: "find_skill_file env_noname demo_dir = Inr (Some (demo_dir @ [lit ''SKILL.md'']))"
    unfolding env_noname_def using demo_find [of noname_header good_body "[]"] by simp
  have v: "validate_first env_noname demo_dir True
       = Inl (SkillError (lit ''Skill validation failed:'' @ [10]
             @ [10060] @ lit '' Errors:'' @ [10]
             @ lit ''  - Required field \"name\" missing from frontmatter''
             @ [10, 10] @ lit ''Use --no-validate to skip validation''))"
    by (simp add: validate_first_def noname_run is_valid_def result_str_def lit_def)
  from f v have c: "package_skill env_noname demo_dir None (lit ''tar'') True True
       = ([], Inl (SkillError (lit ''Skill validation failed:'' @ [10]
             @ [10060] @ lit '' Errors:'' @ [10]
             @ lit ''  - Required field \"name\" missing from frontmatter''
             @ [10, 10] @ lit ''Use --no-validate to skip validation'')))"
    by (simp add: package_skill_def Let_def bind_exn_def demo_parent)
  from a b c show ?thesis by blast
qed

end
